theory Spec2Isabelle
  imports Complex_Main "HOL-Library.AList"
begin

section \<open>Python values\<close>

text \<open>
  The operations of \<^verbatim>\<open>clinical_trials_api.py\<close> work on what \<^verbatim>\<open>response.json()\<close>
  returns and build dictionaries and lists from it, so the model has one type of Python
  values. A dictionary is an association list in insertion order (keys are Python values:
  the frequency tables of \<^verbatim>\<open>calculate_statistics\<close> are keyed by whatever the
  record holds). A \<open>string\<close> stands for a Python \<^verbatim>\<open>str\<close> whose code points are
  below 256, one \<open>char\<close> per code point. A Python float is a double: a finite one is
  represented by the rational it denotes, and every operation rounds its exact result to
  the nearest double, ties to even, as IEEE arithmetic does; the infinities and NaN are
  values of their own. Negative zero is not told apart from zero.
\<close>

datatype pyfloat = Finite rat | PosInf | NegInf | NaN

datatype pyval =
    PNone
  | PBool bool
  | PInt int
  | PFloat pyfloat
  | PStr string
  | PList "pyval list"
  | PDict "(pyval \<times> pyval) list"

text \<open>A raised Python exception: its class and the message \<^verbatim>\<open>str(e)\<close> gives.\<close>

datatype exn_class =
    Timeout | ConnectionError | HTTPError | JSONDecodeError
  | AttributeError | TypeError | ValueError | IndexError | KeyError
  | OverflowError | ZeroDivisionError

datatype exn = Exn exn_class string

fun str_exn :: "exn \<Rightarrow> string" where
  "str_exn (Exn c msg) = msg"

text \<open>Sequencing of statements that may raise: the first exception ends the block.\<close>

definition bnd :: "exn + 'a \<Rightarrow> ('a \<Rightarrow> exn + 'b) \<Rightarrow> exn + 'b" where
  "bnd m f = (case m of Inl e \<Rightarrow> Inl e | Inr v \<Rightarrow> f v)"

fun type_name :: "pyval \<Rightarrow> string" where
  "type_name PNone = ''NoneType''"
| "type_name (PBool b) = ''bool''"
| "type_name (PInt i) = ''int''"
| "type_name (PFloat r) = ''float''"
| "type_name (PStr s) = ''str''"
| "type_name (PList xs) = ''list''"
| "type_name (PDict kvs) = ''dict''"

text \<open>Truth value of a Python value, as \<^verbatim>\<open>if x:\<close> and \<^verbatim>\<open>not x\<close> test it.\<close>

fun truthy :: "pyval \<Rightarrow> bool" where
  "truthy PNone = False"
| "truthy (PBool b) = b"
| "truthy (PInt i) = (i \<noteq> 0)"
| "truthy (PFloat x) = (x \<noteq> Finite 0)"
| "truthy (PStr s) = (s \<noteq> [])"
| "truthy (PList xs) = (xs \<noteq> [])"
| "truthy (PDict kvs) = (kvs \<noteq> [])"

text \<open>
  Dictionary keys. Numbers that are equal are the same key (\<^verbatim>\<open>1 == True == 1.0\<close>);
  lists and dictionaries are unhashable.
\<close>

fun hashable :: "pyval \<Rightarrow> bool" where
  "hashable (PList xs) = False"
| "hashable (PDict kvs) = False"
| "hashable v = True"

fun key_norm :: "pyval \<Rightarrow> pyval" where
  "key_norm (PBool b) = PFloat (Finite (if b then 1 else 0))"
| "key_norm (PInt i) = PFloat (Finite (of_int i))"
| "key_norm v = v"

definition key_eq :: "pyval \<Rightarrow> pyval \<Rightarrow> bool" where
  "key_eq a b = (key_norm a = key_norm b)"

fun lookup :: "(pyval \<times> 'v) list \<Rightarrow> pyval \<Rightarrow> 'v option" where
  "lookup [] k = None"
| "lookup ((k', v) # kvs) k = (if key_eq k' k then Some v else lookup kvs k)"

text \<open>\<^verbatim>\<open>d[k] = v\<close>: an existing key keeps its place, a new one goes last.\<close>

fun store :: "(pyval \<times> 'v) list \<Rightarrow> pyval \<Rightarrow> 'v \<Rightarrow> (pyval \<times> 'v) list" where
  "store [] k v = [(k, v)]"
| "store ((k', v') # kvs) k v =
     (if key_eq k' k then (k', v) # kvs else (k', v') # store kvs k v)"

text \<open>\<^verbatim>\<open>x.get(key, default)\<close> with a string key: only a dictionary has the method.\<close>

definition dict_get :: "pyval \<Rightarrow> string \<Rightarrow> pyval \<Rightarrow> exn + pyval" where
  "dict_get x k dflt =
     (case x of
        PDict kvs \<Rightarrow> Inr (case lookup kvs (PStr k) of Some v \<Rightarrow> v | None \<Rightarrow> dflt)
      | _ \<Rightarrow> Inl (Exn AttributeError
                 ([CHR 0x27] @ type_name x @ [CHR 0x27] @ '' object has no attribute ''
                  @ [CHR 0x27] @ ''get'' @ [CHR 0x27])))"

text \<open>\<^verbatim>\<open>len(x)\<close>.\<close>

definition py_len :: "pyval \<Rightarrow> exn + int" where
  "py_len x =
     (case x of
        PStr s \<Rightarrow> Inr (int (length s))
      | PList xs \<Rightarrow> Inr (int (length xs))
      | PDict kvs \<Rightarrow> Inr (int (length kvs))
      | _ \<Rightarrow> Inl (Exn TypeError
                 (''object of type '' @ [CHR 0x27] @ type_name x @ [CHR 0x27] @ '' has no len()'')))"

text \<open>
  The elements \<^verbatim>\<open>for y in x\<close> runs over: the items of a list, the characters of a
  string, the keys of a dictionary.
\<close>

definition py_iter :: "pyval \<Rightarrow> exn + pyval list" where
  "py_iter x =
     (case x of
        PStr s \<Rightarrow> Inr (map (\<lambda>c. PStr [c]) s)
      | PList xs \<Rightarrow> Inr xs
      | PDict kvs \<Rightarrow> Inr (map fst kvs)
      | _ \<Rightarrow> Inl (Exn TypeError
                 ([CHR 0x27] @ type_name x @ [CHR 0x27] @ '' object is not iterable'')))"

text \<open>
  \<^verbatim>\<open>x[:n]\<close> for a literal \<open>n \<ge> 0\<close>: strings and lists can be sliced. A
  dictionary takes the slice for a key and fails to hash it (Python before 3.12; later
  versions raise \<^verbatim>\<open>KeyError\<close> instead).
\<close>

definition py_slice_to :: "nat \<Rightarrow> pyval \<Rightarrow> exn + pyval" where
  "py_slice_to n x =
     (case x of
        PStr s \<Rightarrow> Inr (PStr (take n s))
      | PList xs \<Rightarrow> Inr (PList (take n xs))
      | PDict kvs \<Rightarrow>
          Inl (Exn TypeError (''unhashable type: '' @ [CHR 0x27] @ ''slice'' @ [CHR 0x27]))
      | _ \<Rightarrow> Inl (Exn TypeError
                 ([CHR 0x27] @ type_name x @ [CHR 0x27] @ '' object is not subscriptable'')))"

text \<open>Running a loop body over a list, stopping at the first exception.\<close>

fun map_exn :: "('a \<Rightarrow> exn + 'b) \<Rightarrow> 'a list \<Rightarrow> exn + 'b list" where
  "map_exn f [] = Inr []"
| "map_exn f (x # xs) =
     (case f x of
        Inl e \<Rightarrow> Inl e
      | Inr y \<Rightarrow> (case map_exn f xs of Inl e \<Rightarrow> Inl e | Inr ys \<Rightarrow> Inr (y # ys)))"

text \<open>\<^verbatim>\<open>str(n)\<close> for an integer, as an f-string formats it.\<close>

fun str_nat :: "nat \<Rightarrow> string" where
  "str_nat n =
     (if n < 10 then [''0123456789'' ! n]
      else str_nat (n div 10) @ [''0123456789'' ! (n mod 10)])"

definition str_int :: "int \<Rightarrow> string" where
  "str_int i = (if i < 0 then CHR ''-'' # str_nat (nat (- i)) else str_nat (nat i))"

text \<open>\<^verbatim>\<open>sep.join(parts)\<close>.\<close>

fun join :: "string \<Rightarrow> string list \<Rightarrow> string" where
  "join sep [] = []"
| "join sep [p] = p"
| "join sep (p # q # ps) = p @ sep @ join sep (q # ps)"

text \<open>The \<^verbatim>\<open>{"error": str(e)}\<close> value of the handlers.\<close>

definition error_value :: "exn \<Rightarrow> pyval" where
  "error_value e = PDict [(PStr ''error'', PStr (str_exn e))]"

text \<open>\<^verbatim>\<open>isinstance(x, dict) and "error" in x\<close>.\<close>

definition is_error_dict :: "pyval \<Rightarrow> bool" where
  "is_error_dict x = (case x of PDict kvs \<Rightarrow> lookup kvs (PStr ''error'') \<noteq> None | _ \<Rightarrow> False)"

section \<open>Floats\<close>

text \<open>
  The nearest double of a rational. \<open>floor_log2 a\<close> is the exponent \<open>e\<close> with
  \<open>2^e \<le> a < 2^(e+1)\<close>; a double of that binade is a multiple of \<open>2^(e-52)\<close>, and
  below \<open>2^-1022\<close> of \<open>2^-1074\<close>. A result of \<open>2^1024\<close> or more is an infinity.
\<close>

function bit_length :: "int \<Rightarrow> int" where
  "bit_length n = (if n \<le> 0 then 0 else 1 + bit_length (n div 2))"
  by pat_completeness auto
termination
  by (relation "measure nat") auto

function pow2 :: "int \<Rightarrow> rat" where
  "pow2 e = (if e = 0 then 1 else if e > 0 then 2 * pow2 (e - 1) else pow2 (e + 1) / 2)"
  by pat_completeness auto
termination
  by (relation "measure (\<lambda>e. nat \<bar>e\<bar>)") auto

definition floor_log2 :: "rat \<Rightarrow> int" where
  "floor_log2 a =
     (if a \<ge> 1 then bit_length \<lfloor>a\<rfloor> - 1 else - bit_length (\<lceil>1 / a\<rceil> - 1))"

definition round_half_even :: "rat \<Rightarrow> int" where
  "round_half_even q =
     (if q - of_int \<lfloor>q\<rfloor> < 1 / 2 then \<lfloor>q\<rfloor>
      else if q - of_int \<lfloor>q\<rfloor> > 1 / 2 then \<lfloor>q\<rfloor> + 1
      else if even \<lfloor>q\<rfloor> then \<lfloor>q\<rfloor> else \<lfloor>q\<rfloor> + 1)"

definition round_double :: "rat \<Rightarrow> pyfloat" where
  "round_double q =
     (if q = 0 then Finite 0
      else
        (let e = max (floor_log2 \<bar>q\<bar>) (- 1022)
         in if e > 1023 then (if q > 0 then PosInf else NegInf)
            else
              (let m = round_half_even (\<bar>q\<bar> / pow2 (e - 52))
               in if e = 1023 \<and> m \<ge> 9007199254740992
                  then (if q > 0 then PosInf else NegInf)
                  else Finite ((if q > 0 then 1 else - 1) * of_int m * pow2 (e - 52)))))"

text \<open>An operation that raises \<^verbatim>\<open>OverflowError\<close> where its result is not finite.\<close>

definition finite_or :: "string \<Rightarrow> pyfloat \<Rightarrow> exn + pyfloat" where
  "finite_or msg x = (case x of Finite r \<Rightarrow> Inr (Finite r) | _ \<Rightarrow> Inl (Exn OverflowError msg))"

text \<open>
  \<^verbatim>\<open>float(i)\<close> as arithmetic of an integer with a float converts it, and \<^verbatim>\<open>a / b\<close>
  for two integers, the correctly rounded quotient.
\<close>

definition int_to_float :: "int \<Rightarrow> exn + pyfloat" where
  "int_to_float i = finite_or ''int too large to convert to float'' (round_double (of_int i))"

definition int_true_div :: "int \<Rightarrow> int \<Rightarrow> exn + pyfloat" where
  "int_true_div a b =
     (if b = 0 then Inl (Exn ZeroDivisionError ''division by zero'')
      else finite_or ''integer division result too large for a float''
             (round_double (of_int a / of_int b)))"

text \<open>\<^verbatim>\<open>x + y\<close> and \<^verbatim>\<open>x / y\<close> for floats.\<close>

definition float_neg :: "pyfloat \<Rightarrow> pyfloat" where
  "float_neg x =
     (case x of Finite r \<Rightarrow> Finite (- r) | PosInf \<Rightarrow> NegInf | NegInf \<Rightarrow> PosInf | NaN \<Rightarrow> NaN)"

definition float_add :: "pyfloat \<Rightarrow> pyfloat \<Rightarrow> pyfloat" where
  "float_add x y =
     (case (x, y) of
        (Finite a, Finite b) \<Rightarrow> round_double (a + b)
      | (NaN, _) \<Rightarrow> NaN
      | (_, NaN) \<Rightarrow> NaN
      | (PosInf, NegInf) \<Rightarrow> NaN
      | (NegInf, PosInf) \<Rightarrow> NaN
      | (Finite a, _) \<Rightarrow> y
      | _ \<Rightarrow> x)"

definition float_div :: "pyfloat \<Rightarrow> pyfloat \<Rightarrow> exn + pyfloat" where
  "float_div x y =
     (case (x, y) of
        (_, Finite b) \<Rightarrow>
          if b = 0 then Inl (Exn ZeroDivisionError ''float division by zero'')
          else Inr (case x of
                      Finite a \<Rightarrow> round_double (a / b)
                    | NaN \<Rightarrow> NaN
                    | _ \<Rightarrow> if b > 0 then x else float_neg x)
      | (NaN, _) \<Rightarrow> Inr NaN
      | (_, NaN) \<Rightarrow> Inr NaN
      | (Finite a, _) \<Rightarrow> Inr (Finite 0)
      | _ \<Rightarrow> Inr NaN)"

text \<open>
  \<^verbatim>\<open>round(x, n)\<close> of a float for \<open>n \<ge> 0\<close>: the exact value of the double is rounded to
  \<open>n\<close> decimals, ties to even, and the decimal found is read back as a double.
\<close>

definition py_round :: "pyfloat \<Rightarrow> nat \<Rightarrow> exn + pyfloat" where
  "py_round x n =
     (case x of
        Finite r \<Rightarrow>
          finite_or ''rounded value too large to represent''
            (round_double (of_int (round_half_even (r * 10 ^ n)) / 10 ^ n))
      | _ \<Rightarrow> Inr x)"

text \<open>The double a decimal literal such as \<^verbatim>\<open>30.44\<close> denotes, given as a fraction.\<close>

definition float_literal :: "int \<Rightarrow> int \<Rightarrow> pyfloat" where
  "float_literal n d = round_double (of_int n / of_int d)"

section \<open>The registry over HTTP\<close>

text \<open>
  A request is the URL and the \<^verbatim>\<open>params\<close> dictionary handed to \<^verbatim>\<open>requests.get\<close>
  (every call uses \<^verbatim>\<open>timeout=30\<close>). Of a response the code uses the status, through
  \<^verbatim>\<open>raise_for_status()\<close>, and \<^verbatim>\<open>json()\<close>, which either raises or returns the decoded
  body.
\<close>

record request =
  req_url :: string
  req_params :: "(string \<times> pyval) list"

record response =
  status_code :: int
  reason :: string
  resp_url :: string
  json_body :: "exn + pyval"

text \<open>
  The registry is the environment: it answers the last request of a history of requests,
  by an exception of \<^verbatim>\<open>requests.get\<close> (timeout, connection failure) or by a response.
  The history of requests sent so far is the state the operations thread.
\<close>

type_synonym registry = "request list \<Rightarrow> exn + response"

definition requests_get ::
  "registry \<Rightarrow> request \<Rightarrow> request list \<Rightarrow> (exn + response) \<times> request list" where
  "requests_get reg rq sent = (reg (sent @ [rq]), sent @ [rq])"

text \<open>\<^verbatim>\<open>response.raise_for_status()\<close>: statuses 400 to 599 raise \<^verbatim>\<open>HTTPError\<close>.\<close>

definition raise_for_status :: "response \<Rightarrow> exn + unit" where
  "raise_for_status r =
     (if 400 \<le> status_code r \<and> status_code r < 500 then
        Inl (Exn HTTPError (str_int (status_code r) @ '' Client Error: '' @ reason r
                            @ '' for url: '' @ resp_url r))
      else if 500 \<le> status_code r \<and> status_code r < 600 then
        Inl (Exn HTTPError (str_int (status_code r) @ '' Server Error: '' @ reason r
                            @ '' for url: '' @ resp_url r))
      else Inr ())"

definition CT_API_BASE :: string where
  "CT_API_BASE = ''https://clinicaltrials.gov/api/v2/studies''"

section \<open>Query construction\<close>

text \<open>
  A filter argument is \<open>None\<close> when omitted (Python \<^verbatim>\<open>None\<close>) and a string otherwise.
  \<^verbatim>\<open>if condition:\<close> holds for a string that is not empty.
\<close>

definition given :: "string option \<Rightarrow> bool" where
  "given a = (case a of None \<Rightarrow> False | Some s \<Rightarrow> s \<noteq> [])"

text \<open>
  One filter field: \<^verbatim>\<open>if x: query_parts.append(f"AREA[Field]{x}")\<close>, as the clauses
  it adds to the list.
\<close>

definition area :: "string \<Rightarrow> string option \<Rightarrow> string list" where
  "area field a = (if given a then [''AREA['' @ field @ '']'' @ the a] else [])"

text \<open>The four clauses \<^verbatim>\<open>count_trials\<close>, \<^verbatim>\<open>search_trials\<close> and \<^verbatim>\<open>extract_sites\<close> share.\<close>

definition base_query_parts ::
  "string option \<Rightarrow> string option \<Rightarrow> string option \<Rightarrow> string option \<Rightarrow> string list" where
  "base_query_parts condition phase status location =
     area ''Condition'' condition @ area ''Phase'' phase
     @ area ''OverallStatus'' status @ area ''LocationCountry'' location"

definition date_range_part :: "string option \<Rightarrow> string option \<Rightarrow> string list" where
  "date_range_part start_date_from start_date_to =
     (if given start_date_from \<and> given start_date_to then
        [''AREA[StartDate]RANGE['' @ the start_date_from @ '','' @ the start_date_to @ '']'']
      else if given start_date_from then
        [''AREA[StartDate]RANGE['' @ the start_date_from @ '',MAX]'']
      else if given start_date_to then
        [''AREA[StartDate]RANGE[MIN,'' @ the start_date_to @ '']'']
      else [])"

definition search_query_parts ::
  "string option \<Rightarrow> string option \<Rightarrow> string option \<Rightarrow> string option \<Rightarrow> string option
   \<Rightarrow> string option \<Rightarrow> string option \<Rightarrow> string option \<Rightarrow> string option \<Rightarrow> string list" where
  "search_query_parts condition phase status location sponsor intervention study_type
       start_date_from start_date_to =
     base_query_parts condition phase status location
     @ area ''LeadSponsorName'' sponsor @ area ''InterventionName'' intervention
     @ area ''StudyType'' study_type @ date_range_part start_date_from start_date_to"

text \<open>
  \<^verbatim>\<open>params = {"format": "json", "pageSize": n}\<close>, and \<^verbatim>\<open>params["query.term"]\<close> when
  there is a clause.
\<close>

definition make_params :: "int \<Rightarrow> string list \<Rightarrow> (string \<times> pyval) list" where
  "make_params page_size query_parts =
     [(''format'', PStr ''json''), (''pageSize'', PInt page_size)]
     @ (if query_parts \<noteq> [] then [(''query.term'', PStr (join '' AND '' query_parts))] else [])"

section \<open>Normalisation of a study\<close>

text \<open>
  \<^verbatim>\<open>_parse_study(study, full_details)\<close>, section by section in the order of the source.
  Every \<^verbatim>\<open>.get\<close> raises when its receiver is not a dictionary.
\<close>

definition parse_identification ::
  "pyval \<Rightarrow> exn + (pyval \<times> pyval \<times> pyval \<times> pyval \<times> pyval)" where
  "parse_identification protocol =
     bnd (dict_get protocol ''identificationModule'' (PDict [])) (\<lambda>id_module.
     bnd (dict_get id_module ''nctId'' (PStr [])) (\<lambda>nct_id.
     bnd (dict_get id_module ''briefTitle'' (PStr [])) (\<lambda>title.
     bnd (dict_get id_module ''officialTitle'' (PStr [])) (\<lambda>official_title.
     bnd (dict_get id_module ''acronym'' (PStr [])) (\<lambda>acronym.
     bnd (dict_get id_module ''organization'' (PDict [])) (\<lambda>org.
     bnd (dict_get org ''fullName'' (PStr [])) (\<lambda>organization.
     Inr (nct_id, title, official_title, acronym, organization))))))))"

text \<open>\<^verbatim>\<open>md.get(struct, {}).get(key, "")\<close>.\<close>

definition get_in :: "pyval \<Rightarrow> string \<Rightarrow> string \<Rightarrow> exn + pyval" where
  "get_in md struct k =
     bnd (dict_get md struct (PDict [])) (\<lambda>s. dict_get s k (PStr []))"

definition parse_status :: "pyval \<Rightarrow> exn + (pyval \<times> (pyval \<times> pyval) list)" where
  "parse_status protocol =
     bnd (dict_get protocol ''statusModule'' (PDict [])) (\<lambda>status_module.
     bnd (dict_get status_module ''overallStatus'' (PStr [])) (\<lambda>overall_status.
     bnd (get_in status_module ''startDateStruct'' ''date'') (\<lambda>start_date.
     bnd (get_in status_module ''startDateStruct'' ''type'') (\<lambda>start_date_type.
     bnd (get_in status_module ''completionDateStruct'' ''date'') (\<lambda>completion_date.
     bnd (get_in status_module ''completionDateStruct'' ''type'') (\<lambda>completion_date_type.
     bnd (get_in status_module ''primaryCompletionDateStruct'' ''date'') (\<lambda>primary_completion_date.
     bnd (get_in status_module ''studyFirstPostDateStruct'' ''date'') (\<lambda>first_posted.
     bnd (get_in status_module ''lastUpdatePostDateStruct'' ''date'') (\<lambda>last_updated.
     bnd (dict_get status_module ''studyFirstSubmitDate'' (PStr [])) (\<lambda>first_submit_date.
     Inr (overall_status,
          [(PStr ''start'', start_date),
           (PStr ''startType'', start_date_type),
           (PStr ''completion'', completion_date),
           (PStr ''completionType'', completion_date_type),
           (PStr ''primaryCompletion'', primary_completion_date),
           (PStr ''firstPosted'', first_posted),
           (PStr ''lastUpdated'', last_updated),
           (PStr ''firstSubmit'', first_submit_date)])))))))))))"

definition parse_sponsor :: "pyval \<Rightarrow> exn + (pyval \<times> pyval \<times> pyval \<times> pyval)" where
  "parse_sponsor protocol =
     bnd (dict_get protocol ''sponsorCollaboratorsModule'' (PDict [])) (\<lambda>sponsor_module.
     bnd (dict_get sponsor_module ''leadSponsor'' (PDict [])) (\<lambda>lead_sponsor.
     bnd (dict_get lead_sponsor ''name'' (PStr [])) (\<lambda>sponsor_name.
     bnd (dict_get lead_sponsor ''class'' (PStr [])) (\<lambda>sponsor_class.
     bnd (dict_get sponsor_module ''responsibleParty'' (PDict [])) (\<lambda>responsible_party.
     bnd (dict_get responsible_party ''investigatorFullName'' (PStr [])) (\<lambda>investigator_name.
     bnd (dict_get responsible_party ''investigatorAffiliation'' (PStr [])) (\<lambda>investigator_affiliation.
     Inr (sponsor_name, sponsor_class, investigator_name, investigator_affiliation))))))))"

definition parse_description :: "pyval \<Rightarrow> exn + (pyval \<times> pyval)" where
  "parse_description protocol =
     bnd (dict_get protocol ''descriptionModule'' (PDict [])) (\<lambda>description_module.
     bnd (dict_get description_module ''briefSummary'' (PStr [])) (\<lambda>brief_summary.
     bnd (dict_get description_module ''detailedDescription'' (PStr [])) (\<lambda>detailed_description.
     Inr (brief_summary, detailed_description))))"

definition parse_conditions :: "pyval \<Rightarrow> exn + pyval" where
  "parse_conditions protocol =
     bnd (dict_get protocol ''conditionsModule'' (PDict [])) (\<lambda>conditions_module.
     dict_get conditions_module ''conditions'' (PList []))"

definition parse_design ::
  "pyval \<Rightarrow> exn + (pyval \<times> pyval \<times> pyval \<times> pyval \<times> pyval \<times> pyval \<times> pyval)" where
  "parse_design protocol =
     bnd (dict_get protocol ''designModule'' (PDict [])) (\<lambda>design_module.
     bnd (dict_get design_module ''studyType'' (PStr [])) (\<lambda>study_type.
     bnd (dict_get design_module ''phases'' (PList [])) (\<lambda>phases.
     bnd (dict_get design_module ''enrollmentInfo'' (PDict [])) (\<lambda>enrollment_info.
     bnd (dict_get enrollment_info ''count'' (PInt 0)) (\<lambda>enrollment_count.
     bnd (dict_get enrollment_info ''type'' (PStr [])) (\<lambda>enrollment_type.
     bnd (dict_get design_module ''designInfo'' (PDict [])) (\<lambda>design_info.
     bnd (dict_get design_info ''allocation'' (PStr [])) (\<lambda>allocation.
     bnd (dict_get design_info ''interventionModel'' (PStr [])) (\<lambda>intervention_model.
     bnd (dict_get design_info ''primaryPurpose'' (PStr [])) (\<lambda>primary_purpose.
     Inr (study_type, phases, enrollment_count, enrollment_type,
          allocation, intervention_model, primary_purpose)))))))))))"

definition parse_intervention :: "bool \<Rightarrow> pyval \<Rightarrow> exn + pyval" where
  "parse_intervention full_details interv =
     bnd (dict_get interv ''type'' (PStr [])) (\<lambda>ty.
     bnd (dict_get interv ''name'' (PStr [])) (\<lambda>name.
     bnd (if \<not> full_details
          then bnd (dict_get interv ''description'' (PStr [])) (py_slice_to 200)
          else dict_get interv ''description'' (PStr [])) (\<lambda>description.
     Inr (PDict [(PStr ''type'', ty), (PStr ''name'', name),
                 (PStr ''description'', description)]))))"

definition parse_interventions :: "bool \<Rightarrow> pyval \<Rightarrow> exn + pyval" where
  "parse_interventions full_details protocol =
     bnd (dict_get protocol ''armsInterventionsModule'' (PDict [])) (\<lambda>arms_module.
     bnd (dict_get arms_module ''interventions'' (PList [])) (\<lambda>interventions_raw.
     bnd (py_iter interventions_raw) (\<lambda>raw.
     bnd (map_exn (parse_intervention full_details) raw) (\<lambda>interventions.
     Inr (PList interventions)))))"

definition parse_eligibility ::
  "pyval \<Rightarrow> exn + (pyval \<times> pyval \<times> pyval \<times> pyval \<times> pyval \<times> pyval)" where
  "parse_eligibility protocol =
     bnd (dict_get protocol ''eligibilityModule'' (PDict [])) (\<lambda>eligibility_module.
     bnd (dict_get eligibility_module ''eligibilityCriteria'' (PStr [])) (\<lambda>eligibility_criteria.
     bnd (dict_get eligibility_module ''healthyVolunteers'' (PBool False)) (\<lambda>healthy_volunteers.
     bnd (dict_get eligibility_module ''sex'' (PStr [])) (\<lambda>sex.
     bnd (dict_get eligibility_module ''minimumAge'' (PStr [])) (\<lambda>min_age.
     bnd (dict_get eligibility_module ''maximumAge'' (PStr [])) (\<lambda>max_age.
     bnd (dict_get eligibility_module ''stdAges'' (PList [])) (\<lambda>std_ages.
     Inr (eligibility_criteria, healthy_volunteers, sex, min_age, max_age, std_ages))))))))"

definition parse_location :: "pyval \<Rightarrow> exn + pyval" where
  "parse_location loc =
     bnd (dict_get loc ''facility'' (PStr [])) (\<lambda>facility.
     bnd (dict_get loc ''city'' (PStr [])) (\<lambda>city.
     bnd (dict_get loc ''state'' (PStr [])) (\<lambda>state.
     bnd (dict_get loc ''country'' (PStr [])) (\<lambda>country.
     bnd (dict_get loc ''status'' (PStr [])) (\<lambda>status.
     Inr (PDict [(PStr ''facility'', facility), (PStr ''city'', city),
                 (PStr ''state'', state), (PStr ''country'', country),
                 (PStr ''status'', status)]))))))"

definition parse_locations :: "pyval \<Rightarrow> exn + pyval" where
  "parse_locations protocol =
     bnd (dict_get protocol ''contactsLocationsModule'' (PDict [])) (\<lambda>contacts_module.
     bnd (dict_get contacts_module ''locations'' (PList [])) (\<lambda>locations_raw.
     bnd (py_slice_to 10 locations_raw) (\<lambda>first10.
     bnd (py_iter first10) (\<lambda>raw.
     bnd (map_exn parse_location raw) (\<lambda>locations.
     Inr (PList locations))))))"

definition parse_primary_outcome :: "pyval \<Rightarrow> exn + pyval" where
  "parse_primary_outcome outcome =
     bnd (dict_get outcome ''measure'' (PStr [])) (\<lambda>measure.
     bnd (dict_get outcome ''description'' (PStr [])) (\<lambda>description.
     bnd (dict_get outcome ''timeFrame'' (PStr [])) (\<lambda>time_frame.
     Inr (PDict [(PStr ''measure'', measure), (PStr ''description'', description),
                 (PStr ''timeFrame'', time_frame)]))))"

definition parse_secondary_outcome :: "pyval \<Rightarrow> exn + pyval" where
  "parse_secondary_outcome outcome =
     bnd (dict_get outcome ''measure'' (PStr [])) (\<lambda>measure.
     bnd (dict_get outcome ''timeFrame'' (PStr [])) (\<lambda>time_frame.
     Inr (PDict [(PStr ''measure'', measure), (PStr ''timeFrame'', time_frame)])))"

definition parse_outcomes :: "bool \<Rightarrow> pyval \<Rightarrow> exn + (pyval \<times> pyval)" where
  "parse_outcomes full_details protocol =
     bnd (dict_get protocol ''outcomesModule'' (PDict [])) (\<lambda>outcomes_module.
     if full_details then
       bnd (dict_get outcomes_module ''primaryOutcomes'' (PList [])) (\<lambda>p_raw.
       bnd (py_iter p_raw) (\<lambda>ps.
       bnd (map_exn parse_primary_outcome ps) (\<lambda>primary_outcomes.
       bnd (dict_get outcomes_module ''secondaryOutcomes'' (PList [])) (\<lambda>s_raw.
       bnd (py_iter s_raw) (\<lambda>ss.
       bnd (map_exn parse_secondary_outcome ss) (\<lambda>secondary_outcomes.
       Inr (PList primary_outcomes, PList secondary_outcomes)))))))
     else Inr (PList [], PList []))"

definition parse_study :: "pyval \<Rightarrow> bool \<Rightarrow> exn + pyval" where
  "parse_study study full_details =
     bnd (dict_get study ''protocolSection'' (PDict [])) (\<lambda>protocol.
     bnd (parse_identification protocol)
       (\<lambda>(nct_id, title, official_title, acronym, organization).
     bnd (parse_status protocol) (\<lambda>(overall_status, dates).
     bnd (parse_sponsor protocol)
       (\<lambda>(sponsor_name, sponsor_class, investigator_name, investigator_affiliation).
     bnd (parse_description protocol) (\<lambda>(brief_summary, detailed_description).
     bnd (parse_conditions protocol) (\<lambda>conditions.
     bnd (parse_design protocol)
       (\<lambda>(study_type, phases, enrollment_count, enrollment_type,
          allocation, intervention_model, primary_purpose).
     bnd (parse_interventions full_details protocol) (\<lambda>interventions.
     bnd (parse_eligibility protocol)
       (\<lambda>(eligibility_criteria, healthy_volunteers, sex, min_age, max_age, std_ages).
     bnd (parse_locations protocol) (\<lambda>locations.
     bnd (parse_outcomes full_details protocol) (\<lambda>(primary_outcomes, secondary_outcomes).
     bnd (if \<not> full_details then py_slice_to 800 eligibility_criteria
          else Inr eligibility_criteria) (\<lambda>criteria.
     Inr (PDict
       ([(PStr ''nctId'', nct_id),
         (PStr ''title'', title),
         (PStr ''acronym'', acronym),
         (PStr ''status'', overall_status),
         (PStr ''phases'', phases),
         (PStr ''studyType'', study_type),
         (PStr ''conditions'', conditions),
         (PStr ''interventions'', interventions),
         (PStr ''sponsor'', sponsor_name),
         (PStr ''sponsorClass'', sponsor_class),
         (PStr ''enrollment'',
            PDict [(PStr ''count'', enrollment_count), (PStr ''type'', enrollment_type)]),
         (PStr ''dates'', PDict dates),
         (PStr ''eligibility'',
            PDict [(PStr ''criteria'', criteria),
                   (PStr ''sex'', sex),
                   (PStr ''minAge'', min_age),
                   (PStr ''maxAge'', max_age),
                   (PStr ''stdAges'', std_ages),
                   (PStr ''healthyVolunteers'', healthy_volunteers)]),
         (PStr ''locations'', locations)]
        @ (if full_details then
             [(PStr ''officialTitle'', official_title),
              (PStr ''organization'', organization),
              (PStr ''investigator'', investigator_name),
              (PStr ''investigatorAffiliation'', investigator_affiliation),
              (PStr ''briefSummary'', brief_summary),
              (PStr ''detailedDescription'', detailed_description),
              (PStr ''design'',
                 PDict [(PStr ''allocation'', allocation),
                        (PStr ''interventionModel'', intervention_model),
                        (PStr ''primaryPurpose'', primary_purpose)]),
              (PStr ''primaryOutcomes'', primary_outcomes),
              (PStr ''secondaryOutcomes'', secondary_outcomes)]
           else [])))))))))))))))"

section \<open>The operations of the registry client\<close>

text \<open>
  An operation takes the registry and the history of requests and returns what the
  caller sees, \<open>Inr\<close> a returned value or \<open>Inl\<close> an exception that propagates, with the
  extended history. \<^verbatim>\<open>try: ... except Exception as e: return {"error": str(e)}\<close> is
  \<open>catch\<close>.
\<close>

definition catch :: "exn + pyval \<Rightarrow> exn + pyval" where
  "catch r = (case r of Inl e \<Rightarrow> Inr (error_value e) | Inr v \<Rightarrow> Inr v)"

text \<open>
  \<^verbatim>\<open>response.raise_for_status(); data = response.json()\<close> on the outcome of
  \<^verbatim>\<open>requests.get\<close>.
\<close>

definition checked_json :: "exn + response \<Rightarrow> exn + pyval" where
  "checked_json got =
     bnd got (\<lambda>response.
     bnd (raise_for_status response) (\<lambda>_.
     json_body response))"

definition search_trials ::
  "registry \<Rightarrow> string option \<Rightarrow> string option \<Rightarrow> string option \<Rightarrow> string option
   \<Rightarrow> string option \<Rightarrow> string option \<Rightarrow> string option \<Rightarrow> string option \<Rightarrow> string option
   \<Rightarrow> int \<Rightarrow> request list \<Rightarrow> (exn + pyval) \<times> request list" where
  "search_trials reg condition phase status location sponsor intervention study_type
       start_date_from start_date_to max_results sent =
     (let params = make_params (min max_results 20)
            (search_query_parts condition phase status location sponsor intervention
               study_type start_date_from start_date_to);
          (got, sent') = requests_get reg \<lparr>req_url = CT_API_BASE, req_params = params\<rparr> sent
      in (catch
            (bnd (checked_json got) (\<lambda>data.
             bnd (dict_get data ''studies'' (PList [])) (\<lambda>full_studies.
             bnd (py_iter full_studies) (\<lambda>studies.
             bnd (map_exn (\<lambda>study. parse_study study False) studies) (\<lambda>records.
             Inr (PList records)))))),
          sent'))"

definition show_trials ::
  "registry \<Rightarrow> string \<Rightarrow> request list \<Rightarrow> (exn + pyval) \<times> request list" where
  "show_trials reg nctId sent =
     (let path = CT_API_BASE @ ''/'' @ nctId;
          (got, sent') = requests_get reg \<lparr>req_url = path, req_params = []\<rparr> sent
      in (bnd got (\<lambda>response.
          bnd (json_body response) (\<lambda>data.
          parse_study data True)),
          sent'))"

text \<open>
  What one iteration of the loop of \<^verbatim>\<open>count_trials\<close> reads from the outcome of its
  request: the number of studies on the page and the continuation token.
\<close>

definition read_page :: "exn + response \<Rightarrow> exn + (int \<times> pyval)" where
  "read_page got =
     bnd (checked_json got) (\<lambda>data.
     bnd (dict_get data ''studies'' (PList [])) (\<lambda>studies.
     bnd (py_len studies) (\<lambda>n.
     bnd (dict_get data ''nextPageToken'' PNone) (\<lambda>next_token.
     Inr (n, next_token)))))"

definition max_pages :: nat where
  "max_pages = 3"

definition page_params :: "(string \<times> pyval) list \<Rightarrow> pyval \<Rightarrow> (string \<times> pyval) list" where
  "page_params params next_token =
     (if truthy next_token then AList.update ''pageToken'' next_token params else params)"

function count_loop ::
  "registry \<Rightarrow> (string \<times> pyval) list \<Rightarrow> int \<Rightarrow> nat \<Rightarrow> pyval \<Rightarrow> request list
   \<Rightarrow> (exn + pyval) \<times> request list" where
  "count_loop reg params total_count page_count next_token sent =
     (if page_count < max_pages then
        (case requests_get reg
                \<lparr>req_url = CT_API_BASE, req_params = page_params params next_token\<rparr> sent of
           (got, sent') \<Rightarrow>
             (case read_page got of
                Inl e \<Rightarrow> (Inl e, sent')
              | Inr (n, tok) \<Rightarrow>
                  if \<not> truthy tok then
                    (Inr (PDict [(PStr ''count'', PInt (total_count + n)),
                                 (PStr ''is_exact'', PBool True)]), sent')
                  else count_loop reg (page_params params next_token) (total_count + n)
                         (page_count + 1) tok sent'))
      else
        (Inr (PDict [(PStr ''count'', PInt total_count),
                     (PStr ''is_exact'', PBool False),
                     (PStr ''note'', PStr (''At least '' @ str_int total_count @ '' trials''))]),
         sent))"
  by pat_completeness auto
termination
  by (relation "measure (\<lambda>(reg, params, total_count, page_count, next_token, sent).
                  max_pages - page_count)") auto

definition count_trials ::
  "registry \<Rightarrow> string option \<Rightarrow> string option \<Rightarrow> string option \<Rightarrow> string option
   \<Rightarrow> request list \<Rightarrow> (exn + pyval) \<times> request list" where
  "count_trials reg condition phase status location sent =
     (case count_loop reg (make_params 100 (base_query_parts condition phase status location))
             0 0 PNone sent of
        (r, sent') \<Rightarrow> (catch r, sent'))"

text \<open>One Site Record of \<^verbatim>\<open>extract_sites\<close>.\<close>

definition site_record :: "pyval \<Rightarrow> pyval \<Rightarrow> exn + pyval" where
  "site_record nct_id loc =
     bnd (dict_get loc ''facility'' (PStr ''Unknown'')) (\<lambda>facility.
     bnd (dict_get loc ''city'' (PStr [])) (\<lambda>city.
     bnd (dict_get loc ''state'' (PStr [])) (\<lambda>state.
     bnd (dict_get loc ''country'' (PStr [])) (\<lambda>country.
     bnd (dict_get loc ''status'' (PStr [])) (\<lambda>status.
     bnd (dict_get loc ''geoPoint'' (PDict [])) (\<lambda>geo_point.
     Inr (PDict [(PStr ''nctId'', nct_id), (PStr ''facility'', facility),
                 (PStr ''city'', city), (PStr ''state'', state),
                 (PStr ''country'', country), (PStr ''status'', status),
                 (PStr ''geoPoint'', geo_point)])))))))"

text \<open>The inner loop, over the locations of one trial, with its \<^verbatim>\<open>break\<close>.\<close>

fun sites_of_locations :: "pyval \<Rightarrow> pyval list \<Rightarrow> pyval list \<Rightarrow> exn + pyval list" where
  "sites_of_locations nct_id [] sites = Inr sites"
| "sites_of_locations nct_id (loc # locs) sites =
     (case site_record nct_id loc of
        Inl e \<Rightarrow> Inl e
      | Inr site \<Rightarrow>
          if length (sites @ [site]) \<ge> 50 then Inr (sites @ [site])
          else sites_of_locations nct_id locs (sites @ [site]))"

text \<open>What the outer loop reads of a trial: its identifier and its locations.\<close>

definition trial_locations :: "pyval \<Rightarrow> exn + (pyval \<times> pyval list)" where
  "trial_locations trial =
     bnd (dict_get trial ''protocolSection'' (PDict [])) (\<lambda>protocol.
     bnd (dict_get protocol ''identificationModule'' (PDict [])) (\<lambda>id_module.
     bnd (dict_get id_module ''nctId'' (PStr [])) (\<lambda>nct_id.
     bnd (dict_get protocol ''contactsLocationsModule'' (PDict [])) (\<lambda>contacts_module.
     bnd (dict_get contacts_module ''locations'' (PList [])) (\<lambda>locations.
     bnd (py_iter locations) (\<lambda>locs.
     Inr (nct_id, locs)))))))"

fun sites_of_trials :: "pyval list \<Rightarrow> pyval list \<Rightarrow> exn + pyval list" where
  "sites_of_trials [] sites = Inr sites"
| "sites_of_trials (trial # trials) sites =
     (case trial_locations trial of
        Inl e \<Rightarrow> Inl e
      | Inr (nct_id, locs) \<Rightarrow>
          (case sites_of_locations nct_id locs sites of
             Inl e \<Rightarrow> Inl e
           | Inr sites' \<Rightarrow>
               if length sites' \<ge> 50 then Inr sites' else sites_of_trials trials sites'))"

definition extract_sites ::
  "registry \<Rightarrow> string option \<Rightarrow> string option \<Rightarrow> string option \<Rightarrow> string option \<Rightarrow> int
   \<Rightarrow> request list \<Rightarrow> (exn + pyval) \<times> request list" where
  "extract_sites reg condition phase status location max_results sent =
     (let params = make_params (min max_results 20)
            (base_query_parts condition phase status location);
          (got, sent') = requests_get reg \<lparr>req_url = CT_API_BASE, req_params = params\<rparr> sent
      in (catch
            (bnd (checked_json got) (\<lambda>data.
             bnd (dict_get data ''studies'' (PList [])) (\<lambda>trials.
             bnd (py_iter trials) (\<lambda>ts.
             bnd (sites_of_trials ts []) (\<lambda>sites.
             Inr (PList sites)))))),
          sent'))"

section \<open>The aggregator\<close>

subsection \<open>Strings\<close>

text \<open>\<^verbatim>\<open>sub in s\<close> for strings.\<close>

fun contains :: "string \<Rightarrow> string \<Rightarrow> bool" where
  "contains sub [] = (sub = [])"
| "contains sub (c # cs) = (take (length sub) (c # cs) = sub \<or> contains sub cs)"

text \<open>
  \<^verbatim>\<open>s.split(sep)\<close> for a separator that is not empty: the pieces between the occurrences
  of \<open>sep\<close>, found from the left without overlap. \<open>cur\<close> is the piece being read.
\<close>

fun split_from :: "string \<Rightarrow> string \<Rightarrow> string \<Rightarrow> string list" where
  "split_from sep cur [] = [cur]"
| "split_from sep cur (c # cs) =
     (if take (length sep) (c # cs) = sep
      then cur # split_from sep [] (drop (length sep - 1) cs)
      else split_from sep (cur @ [c]) cs)"

definition split :: "string \<Rightarrow> string \<Rightarrow> string list" where
  "split s sep = split_from sep [] s"

text \<open>Whitespace as \<^verbatim>\<open>str.strip()\<close> and the \<^verbatim>\<open>\s\<close> of a pattern see it.\<close>

definition is_space :: "char \<Rightarrow> bool" where
  "is_space c =
     (let n = (of_char c :: nat)
      in (9 \<le> n \<and> n \<le> 13) \<or> (28 \<le> n \<and> n \<le> 32) \<or> n = 133 \<or> n = 160)"

definition strip :: "string \<Rightarrow> string" where
  "strip s = rev (dropWhile is_space (rev (dropWhile is_space s)))"

subsection \<open>Eligibility criteria\<close>

text \<open>
  \<^verbatim>\<open>marker in criteria_text\<close> for whatever the record holds as its criteria: substring
  of a string, member of a list, key of a dictionary.
\<close>

definition py_in :: "string \<Rightarrow> pyval \<Rightarrow> exn + bool" where
  "py_in marker x =
     (case x of
        PStr s \<Rightarrow> Inr (contains marker s)
      | PList xs \<Rightarrow> Inr (PStr marker \<in> set xs)
      | PDict kvs \<Rightarrow> Inr (lookup kvs (PStr marker) \<noteq> None)
      | _ \<Rightarrow> Inl (Exn TypeError
                 (''argument of type '' @ [CHR 0x27] @ type_name x @ [CHR 0x27]
                  @ '' is not iterable'')))"

text \<open>\<^verbatim>\<open>x.split(marker)[i]\<close>: only a string has \<^verbatim>\<open>split\<close>.\<close>

definition split_part :: "pyval \<Rightarrow> string \<Rightarrow> nat \<Rightarrow> exn + string" where
  "split_part x marker i =
     (case x of
        PStr s \<Rightarrow>
          (if i < length (split s marker) then Inr (split s marker ! i)
           else Inl (Exn IndexError ''list index out of range''))
      | _ \<Rightarrow> Inl (Exn AttributeError
                 ([CHR 0x27] @ type_name x @ [CHR 0x27] @ '' object has no attribute ''
                  @ [CHR 0x27] @ ''split'' @ [CHR 0x27])))"

text \<open>
  The two \<^verbatim>\<open>if\<close> blocks of the loop body of \<^verbatim>\<open>analyze_criteria\<close>, each as the
  fragments it appends.
\<close>

definition inclusion_block :: "pyval \<Rightarrow> exn + string list" where
  "inclusion_block criteria_text =
     bnd (py_in ''Inclusion Criteria'' criteria_text) (\<lambda>has_inclusion.
     if has_inclusion then
       bnd (split_part criteria_text ''Inclusion Criteria'' 1) (\<lambda>inclusion_text.
       if contains ''Exclusion Criteria'' inclusion_text then
         bnd (split_part (PStr inclusion_text) ''Exclusion Criteria'' 0) (\<lambda>inclusion_text'.
         Inr [strip inclusion_text'])
       else Inr [strip inclusion_text])
     else Inr [])"

definition exclusion_block :: "pyval \<Rightarrow> exn + string list" where
  "exclusion_block criteria_text =
     bnd (py_in ''Exclusion Criteria'' criteria_text) (\<lambda>has_exclusion.
     if has_exclusion then
       bnd (split_part criteria_text ''Exclusion Criteria'' 1) (\<lambda>exclusion_text.
       Inr [strip exclusion_text])
     else Inr [])"

text \<open>
  One trial of the loop. \<^verbatim>\<open>except Exception: continue\<close> keeps what was appended before
  the exception.
\<close>

definition criteria_step :: "pyval \<Rightarrow> string list \<times> string list \<Rightarrow> string list \<times> string list" where
  "criteria_step trial acc =
     (case bnd (dict_get trial ''eligibility'' (PDict [])) (\<lambda>eligibility.
                dict_get eligibility ''criteria'' (PStr [])) of
        Inl e \<Rightarrow> acc
      | Inr criteria_text \<Rightarrow>
          if \<not> truthy criteria_text then acc
          else
            (case inclusion_block criteria_text of
               Inl e \<Rightarrow> acc
             | Inr inc \<Rightarrow>
                 (case exclusion_block criteria_text of
                    Inl e \<Rightarrow> (fst acc @ inc, snd acc)
                  | Inr exc \<Rightarrow> (fst acc @ inc, snd acc @ exc))))"

definition analyze_criteria :: "pyval \<Rightarrow> exn + pyval" where
  "analyze_criteria trials =
     (if is_error_dict trials then Inr trials
      else
        bnd (py_iter trials) (\<lambda>ts.
        case fold criteria_step ts ([], []) of
          (inclusion, exclusion) \<Rightarrow>
            Inr (PDict [(PStr ''inclusion'', PList (map PStr inclusion)),
                        (PStr ''exclusion'', PList (map PStr exclusion))])))"

subsection \<open>Dates\<close>

text \<open>
  \<^verbatim>\<open>datetime.strptime\<close> for the four formats of \<^verbatim>\<open>parse_date\<close>, in the C locale.
  The pattern of a format must match from the start of the string and leave nothing
  unconverted: \<^verbatim>\<open>%Y\<close> is four digits, \<^verbatim>\<open>%m\<close> is \<^verbatim>\<open>1[0-2]|0[1-9]|[1-9]\<close>,
  \<^verbatim>\<open>%d\<close> is \<^verbatim>\<open>3[01]|[12]\d|0[1-9]|[1-9]| [1-9]\<close>, \<^verbatim>\<open>%B\<close> is a full month name in
  any case, and a blank of the format is \<^verbatim>\<open>\s+\<close>. The date found must exist. The
  parsed \<^verbatim>\<open>datetime\<close> is at midnight, so it is its date.
\<close>

datatype date_format = Fmt_Y_m_d | Fmt_Y_m | Fmt_B_Y | Fmt_B_d_Y

record date =
  year :: int
  month :: int
  day :: int

definition is_digit :: "char \<Rightarrow> bool" where
  "is_digit c = (c \<in> set ''0123456789'')"

definition digit_value :: "char \<Rightarrow> int" where
  "digit_value c = int (of_char c) - 48"

text \<open>\<^verbatim>\<open>int(s)\<close> for a string of digits.\<close>

definition digits_value :: "string \<Rightarrow> int" where
  "digits_value s = foldl (\<lambda>acc c. 10 * acc + digit_value c) 0 s"

definition year_token :: "string \<Rightarrow> int option" where
  "year_token s =
     (if length s = 4 \<and> list_all is_digit s then Some (digits_value s) else None)"

text \<open>
  The strings \<^verbatim>\<open>%m\<close> and \<^verbatim>\<open>%d\<close> accept are the one- and two-digit numerals of
  1 to 12 and of 1 to 31, and for \<^verbatim>\<open>%d\<close> a blank before a digit that is not 0.
\<close>

definition month_token :: "string \<Rightarrow> int option" where
  "month_token s =
     (if 1 \<le> length s \<and> length s \<le> 2 \<and> list_all is_digit s
         \<and> 1 \<le> digits_value s \<and> digits_value s \<le> 12
      then Some (digits_value s) else None)"

definition day_token :: "string \<Rightarrow> int option" where
  "day_token s =
     (if 1 \<le> length s \<and> length s \<le> 2 \<and> list_all is_digit s
         \<and> 1 \<le> digits_value s \<and> digits_value s \<le> 31
      then Some (digits_value s)
      else if length s = 2 \<and> hd s = CHR '' '' \<and> is_digit (s ! 1) \<and> s ! 1 \<noteq> CHR ''0''
      then Some (digit_value (s ! 1))
      else None)"

definition lower :: "char \<Rightarrow> char" where
  "lower c =
     (if (65::nat) \<le> of_char c \<and> (of_char c :: nat) \<le> 90
      then char_of ((of_char c :: nat) + 32) else c)"

definition month_names :: "string list" where
  "month_names =
     [''january'', ''february'', ''march'', ''april'', ''may'', ''june'', ''july'',
      ''august'', ''september'', ''october'', ''november'', ''december'']"

text \<open>
  The month name a string starts with: its number and the rest of the string. No month
  name begins another, so at most one fits.
\<close>

fun month_name_from :: "nat \<Rightarrow> string list \<Rightarrow> string \<Rightarrow> (int \<times> string) option" where
  "month_name_from i [] s = None"
| "month_name_from i (name # names) s =
     (if map lower (take (length name) s) = name
      then Some (int i, drop (length name) s)
      else month_name_from (i + 1) names s)"

definition month_name_token :: "string \<Rightarrow> (int \<times> string) option" where
  "month_name_token s = month_name_from 1 month_names s"

text \<open>\<^verbatim>\<open>\s+\<close>: at least one blank; what follows the blanks.\<close>

definition blanks :: "string \<Rightarrow> string option" where
  "blanks s = (case s of [] \<Rightarrow> None
               | c # cs \<Rightarrow> if is_space c then Some (dropWhile is_space cs) else None)"

text \<open>The fields a format finds in a string; the day is 1 when the format has none.\<close>

fun match_format :: "date_format \<Rightarrow> string \<Rightarrow> (int \<times> int \<times> int) option" where
  "match_format Fmt_Y_m_d s =
     (case year_token (take 4 s) of
        None \<Rightarrow> None
      | Some y \<Rightarrow>
          (case drop 4 s of
             [] \<Rightarrow> None
           | c # rest \<Rightarrow>
               if c \<noteq> CHR ''-'' then None
               else
                 (case month_token (takeWhile (\<lambda>c. c \<noteq> CHR ''-'') rest) of
                    None \<Rightarrow> None
                  | Some m \<Rightarrow>
                      (case dropWhile (\<lambda>c. c \<noteq> CHR ''-'') rest of
                         [] \<Rightarrow> None
                       | c' # after \<Rightarrow>
                           (case day_token after of
                              None \<Rightarrow> None
                            | Some d \<Rightarrow> Some (y, m, d))))))"
| "match_format Fmt_Y_m s =
     (case year_token (take 4 s) of
        None \<Rightarrow> None
      | Some y \<Rightarrow>
          (case drop 4 s of
             [] \<Rightarrow> None
           | c # rest \<Rightarrow>
               if c \<noteq> CHR ''-'' then None
               else (case month_token rest of None \<Rightarrow> None | Some m \<Rightarrow> Some (y, m, 1))))"
| "match_format Fmt_B_Y s =
     (case month_name_token s of
        None \<Rightarrow> None
      | Some (m, rest) \<Rightarrow>
          (case blanks rest of
             None \<Rightarrow> None
           | Some after \<Rightarrow>
               (case year_token after of None \<Rightarrow> None | Some y \<Rightarrow> Some (y, m, 1))))"
| "match_format Fmt_B_d_Y s =
     (case month_name_token s of
        None \<Rightarrow> None
      | Some (m, rest) \<Rightarrow>
          (case blanks rest of
             None \<Rightarrow> None
           | Some from_day \<Rightarrow>
               (case day_token (takeWhile (\<lambda>c. c \<noteq> CHR '','') from_day) of
                  None \<Rightarrow> None
                | Some d \<Rightarrow>
                    (case dropWhile (\<lambda>c. c \<noteq> CHR '','') from_day of
                       [] \<Rightarrow> None
                     | c # after_comma \<Rightarrow>
                         (case blanks after_comma of
                            None \<Rightarrow> None
                          | Some from_year \<Rightarrow>
                              (case year_token from_year of
                                 None \<Rightarrow> None
                               | Some y \<Rightarrow> Some (y, m, d)))))))"

definition is_leap :: "int \<Rightarrow> bool" where
  "is_leap y = (y mod 4 = 0 \<and> (y mod 100 \<noteq> 0 \<or> y mod 400 = 0))"

definition days_in_month :: "int \<Rightarrow> int \<Rightarrow> int" where
  "days_in_month y m =
     (if m = 2 then (if is_leap y then 29 else 28)
      else if m = 4 \<or> m = 6 \<or> m = 9 \<or> m = 11 then 30 else 31)"

definition valid_date :: "int \<Rightarrow> int \<Rightarrow> int \<Rightarrow> bool" where
  "valid_date y m d =
     (1 \<le> y \<and> y \<le> 9999 \<and> 1 \<le> m \<and> m \<le> 12 \<and> 1 \<le> d \<and> d \<le> days_in_month y m)"

text \<open>
  The messages of the \<^verbatim>\<open>ValueError\<close>s below are shortened: \<^verbatim>\<open>parse_date\<close> catches
  every \<^verbatim>\<open>ValueError\<close> and never reads the message.
\<close>

definition strptime :: "pyval \<Rightarrow> date_format \<Rightarrow> exn + date" where
  "strptime x fmt =
     (case x of
        PStr s \<Rightarrow>
          (case match_format fmt s of
             None \<Rightarrow> Inl (Exn ValueError ''time data does not match format'')
           | Some (y, m, d) \<Rightarrow>
               if valid_date y m d then Inr \<lparr>year = y, month = m, day = d\<rparr>
               else Inl (Exn ValueError ''day is out of range for month''))
      | _ \<Rightarrow> Inl (Exn TypeError (''strptime() argument 1 must be str, not '' @ type_name x)))"

fun exn_class_of :: "exn \<Rightarrow> exn_class" where
  "exn_class_of (Exn c msg) = c"

text \<open>\<^verbatim>\<open>parse_date\<close>: the first format that parses; \<open>None\<close> when none does.\<close>

fun try_formats :: "pyval \<Rightarrow> date_format list \<Rightarrow> exn + date option" where
  "try_formats date_str [] = Inr None"
| "try_formats date_str (fmt # fmts) =
     (case strptime date_str fmt of
        Inr d \<Rightarrow> Inr (Some d)
      | Inl e \<Rightarrow> if exn_class_of e = ValueError then try_formats date_str fmts else Inl e)"

definition parse_date :: "pyval \<Rightarrow> exn + date option" where
  "parse_date date_str = try_formats date_str [Fmt_Y_m_d, Fmt_Y_m, Fmt_B_Y, Fmt_B_d_Y]"

text \<open>The day number of a date (proleptic Gregorian, 1 for 0001-01-01).\<close>

definition days_before_year :: "int \<Rightarrow> int" where
  "days_before_year y = (y - 1) * 365 + (y - 1) div 4 - (y - 1) div 100 + (y - 1) div 400"

definition days_before_month :: "int \<Rightarrow> int \<Rightarrow> int" where
  "days_before_month y m = sum_list (map (days_in_month y) [1 .. m - 1])"

definition ordinal :: "date \<Rightarrow> int" where
  "ordinal d = days_before_year (year d) + days_before_month (year d) (month d) + day d"

subsection \<open>Statistics\<close>

text \<open>The accumulators of \<^verbatim>\<open>calculate_statistics\<close>: the mutable part of \<^verbatim>\<open>stats\<close>.\<close>

record stats =
  phases_table :: "(pyval \<times> int) list"
  statuses_table :: "(pyval \<times> int) list"
  study_types_table :: "(pyval \<times> int) list"
  sponsors_table :: "(pyval \<times> int) list"
  enrollment_total :: pyval
  enrollment_count :: int
  duration_total_days :: int
  duration_count :: int
  durations :: "int list"

definition initial_stats :: stats where
  "initial_stats =
     \<lparr>phases_table = [], statuses_table = [], study_types_table = [], sponsors_table = [],
      enrollment_total = PInt 0, enrollment_count = 0,
      duration_total_days = 0, duration_count = 0, durations = []\<rparr>"

text \<open>\<^verbatim>\<open>table[k] = table.get(k, 0) + 1\<close>: an unhashable key raises.\<close>

definition bump :: "(pyval \<times> int) list \<Rightarrow> pyval \<Rightarrow> exn + (pyval \<times> int) list" where
  "bump table k =
     (if hashable k
      then Inr (store table k ((case lookup table k of Some n \<Rightarrow> n | None \<Rightarrow> 0) + 1))
      else Inl (Exn TypeError (''unhashable type: '' @ [CHR 0x27] @ type_name k @ [CHR 0x27])))"

text \<open>
  A number as arithmetic sees it: an integer (a \<^verbatim>\<open>bool\<close> is one) or a float.
\<close>

definition as_number :: "pyval \<Rightarrow> (int + pyfloat) option" where
  "as_number x =
     (case x of
        PInt i \<Rightarrow> Some (Inl i)
      | PBool b \<Rightarrow> Some (Inl (if b then 1 else 0))
      | PFloat f \<Rightarrow> Some (Inr f)
      | _ \<Rightarrow> None)"

text \<open>
  \<^verbatim>\<open>total += x\<close>: integers add exactly; with a float on one side the integer on the
  other is converted first.
\<close>

definition py_add :: "pyval \<Rightarrow> pyval \<Rightarrow> exn + pyval" where
  "py_add tot x =
     (case (as_number tot, as_number x) of
        (Some (Inl a), Some (Inl b)) \<Rightarrow> Inr (PInt (a + b))
      | (Some (Inl a), Some (Inr g)) \<Rightarrow>
          bnd (int_to_float a) (\<lambda>f. Inr (PFloat (float_add f g)))
      | (Some (Inr f), Some (Inl b)) \<Rightarrow>
          bnd (int_to_float b) (\<lambda>g. Inr (PFloat (float_add f g)))
      | (Some (Inr f), Some (Inr g)) \<Rightarrow> Inr (PFloat (float_add f g))
      | _ \<Rightarrow> Inl (Exn TypeError
                 (''unsupported operand type(s) for +=: '' @ [CHR 0x27] @ type_name tot
                  @ [CHR 0x27] @ '' and '' @ [CHR 0x27] @ type_name x @ [CHR 0x27])))"

text \<open>\<^verbatim>\<open>total / count\<close> where \<open>count\<close> is an integer.\<close>

definition py_truediv :: "pyval \<Rightarrow> int \<Rightarrow> exn + pyfloat" where
  "py_truediv tot n =
     (case as_number tot of
        Some (Inl a) \<Rightarrow> int_true_div a n
      | Some (Inr f) \<Rightarrow> bnd (int_to_float n) (float_div f)
      | None \<Rightarrow> Inl (Exn TypeError
                 (''unsupported operand type(s) for /: '' @ [CHR 0x27] @ type_name tot
                  @ [CHR 0x27] @ '' and '' @ [CHR 0x27] @ ''int'' @ [CHR 0x27])))"

text \<open>\<^verbatim>\<open>x["count"]\<close>: a dictionary is indexed by a string, a list or a string is not.\<close>

definition py_getitem :: "pyval \<Rightarrow> string \<Rightarrow> exn + pyval" where
  "py_getitem x k =
     (case x of
        PDict kvs \<Rightarrow>
          (case lookup kvs (PStr k) of
             Some v \<Rightarrow> Inr v
           | None \<Rightarrow> Inl (Exn KeyError ([CHR 0x27] @ k @ [CHR 0x27])))
      | PList xs \<Rightarrow> Inl (Exn TypeError ''list indices must be integers or slices, not str'')
      | PStr s \<Rightarrow> Inl (Exn TypeError (''string indices must be integers, not '' @ [CHR 0x27] @ ''str'' @ [CHR 0x27]))
      | _ \<Rightarrow> Inl (Exn TypeError
                 ([CHR 0x27] @ type_name x @ [CHR 0x27] @ '' object is not subscriptable'')))"

text \<open>
  The statements of the loop body, each as a step on the accumulators that either
  raises before it changes anything or completes.
\<close>

definition phase_block :: "pyval \<Rightarrow> stats \<Rightarrow> exn + stats" where
  "phase_block phase st =
     bnd (bump (phases_table st) phase) (\<lambda>t. Inr (st\<lparr>phases_table := t\<rparr>))"

definition status_block :: "pyval \<Rightarrow> stats \<Rightarrow> exn + stats" where
  "status_block trial st =
     bnd (dict_get trial ''status'' (PStr ''Unknown'')) (\<lambda>trial_status.
     bnd (bump (statuses_table st) trial_status) (\<lambda>t. Inr (st\<lparr>statuses_table := t\<rparr>)))"

definition study_type_block :: "pyval \<Rightarrow> stats \<Rightarrow> exn + stats" where
  "study_type_block trial st =
     bnd (dict_get trial ''studyType'' (PStr ''Unknown'')) (\<lambda>study_type.
     bnd (bump (study_types_table st) study_type) (\<lambda>t. Inr (st\<lparr>study_types_table := t\<rparr>)))"

definition sponsor_block :: "pyval \<Rightarrow> stats \<Rightarrow> exn + stats" where
  "sponsor_block trial st =
     bnd (dict_get trial ''sponsor'' (PStr ''Unknown'')) (\<lambda>trial_sponsor.
     bnd (bump (sponsors_table st) trial_sponsor) (\<lambda>t. Inr (st\<lparr>sponsors_table := t\<rparr>)))"

definition enrollment_block :: "pyval \<Rightarrow> stats \<Rightarrow> exn + stats" where
  "enrollment_block trial st =
     bnd (dict_get trial ''enrollment'' (PDict [])) (\<lambda>enrollment.
     bnd (py_in ''count'' enrollment) (\<lambda>has_count.
     if has_count then
       bnd (py_getitem enrollment ''count'') (\<lambda>c.
       if truthy c then
         bnd (py_add (enrollment_total st) c) (\<lambda>tot.
         Inr (st\<lparr>enrollment_total := tot, enrollment_count := enrollment_count st + 1\<rparr>))
       else Inr st)
     else Inr st))"

text \<open>
  The inner \<^verbatim>\<open>try\<close> of the duration calculation: \<open>Inr\<close> the duration in days to add,
  if any, \<open>Inl\<close> an exception, which \<^verbatim>\<open>except Exception: pass\<close> drops.
\<close>

definition duration_days :: "pyval \<Rightarrow> pyval \<Rightarrow> exn + int option" where
  "duration_days start_date_str completion_date_str =
     bnd (parse_date start_date_str) (\<lambda>start_date.
     bnd (parse_date completion_date_str) (\<lambda>completion_date.
     case (start_date, completion_date) of
       (Some s, Some c) \<Rightarrow>
         if ordinal c > ordinal s then Inr (Some (ordinal c - ordinal s)) else Inr None
     | _ \<Rightarrow> Inr None))"

definition duration_block :: "pyval \<Rightarrow> stats \<Rightarrow> exn + stats" where
  "duration_block trial st =
     bnd (dict_get trial ''dates'' (PDict [])) (\<lambda>dates.
     bnd (dict_get dates ''start'' (PStr [])) (\<lambda>start_date_str.
     bnd (dict_get dates ''completion'' (PStr [])) (\<lambda>completion_date_str.
     if truthy start_date_str \<and> truthy completion_date_str then
       (case duration_days start_date_str completion_date_str of
          Inr (Some duration) \<Rightarrow>
            Inr (st\<lparr>duration_total_days := duration_total_days st + duration,
                    duration_count := duration_count st + 1,
                    durations := durations st @ [duration]\<rparr>)
        | _ \<Rightarrow> Inr st)
     else Inr st)))"

text \<open>
  Blocks in sequence under \<^verbatim>\<open>try: ... except Exception: continue\<close>: the first block
  that raises ends the body, and what the blocks before it did stays.
\<close>

fun run_blocks :: "(stats \<Rightarrow> exn + stats) list \<Rightarrow> stats \<Rightarrow> stats" where
  "run_blocks [] st = st"
| "run_blocks (b # bs) st = (case b st of Inl e \<Rightarrow> st | Inr st' \<Rightarrow> run_blocks bs st')"

definition trial_step :: "pyval \<Rightarrow> stats \<Rightarrow> stats" where
  "trial_step trial st =
     (case bnd (dict_get trial ''phases'' (PList [])) py_iter of
        Inl e \<Rightarrow> st
      | Inr phases \<Rightarrow>
          run_blocks (map phase_block phases
                      @ [status_block trial, study_type_block trial, sponsor_block trial,
                         enrollment_block trial, duration_block trial]) st)"

text \<open>\<^verbatim>\<open>[t.get("nctId") for t in trials if t.get("nctId")]\<close>.\<close>

fun nct_ids :: "pyval list \<Rightarrow> exn + pyval list" where
  "nct_ids [] = Inr []"
| "nct_ids (t # ts) =
     (case dict_get t ''nctId'' PNone of
        Inl e \<Rightarrow> Inl e
      | Inr v \<Rightarrow>
          (case nct_ids ts of
             Inl e \<Rightarrow> Inl e
           | Inr vs \<Rightarrow> Inr (if truthy v then v # vs else vs)))"

definition table_value :: "(pyval \<times> int) list \<Rightarrow> pyval" where
  "table_value table = PDict (map (\<lambda>(k, n). (k, PInt n)) table)"

text \<open>
  The \<^verbatim>\<open>"enrollment"\<close> and \<^verbatim>\<open>"duration"\<close> entries after the final \<^verbatim>\<open>if\<close>s. The
  averages are computed outside every \<^verbatim>\<open>try\<close>: an exception of theirs is an exception
  of \<^verbatim>\<open>calculate_statistics\<close>.
\<close>

definition enrollment_value :: "stats \<Rightarrow> exn + pyval" where
  "enrollment_value st =
     (if enrollment_count st > 0 then
        bnd (py_truediv (enrollment_total st) (enrollment_count st)) (\<lambda>average.
        Inr (PDict [(PStr ''total'', enrollment_total st),
                    (PStr ''count'', PInt (enrollment_count st)),
                    (PStr ''average'', PFloat average)]))
      else
        Inr (PDict [(PStr ''total'', enrollment_total st),
                    (PStr ''count'', PInt (enrollment_count st))]))"

text \<open>\<^verbatim>\<open>min(xs)\<close> and \<^verbatim>\<open>max(xs)\<close> of a list of integers.\<close>

definition py_min :: "int list \<Rightarrow> exn + int" where
  "py_min xs = (case xs of [] \<Rightarrow> Inl (Exn ValueError ''min() arg is an empty sequence'')
                | x # ys \<Rightarrow> Inr (fold min ys x))"

definition py_max :: "int list \<Rightarrow> exn + int" where
  "py_max xs = (case xs of [] \<Rightarrow> Inl (Exn ValueError ''max() arg is an empty sequence'')
                | x # ys \<Rightarrow> Inr (fold max ys x))"

definition duration_value :: "stats \<Rightarrow> exn + pyval" where
  "duration_value st =
     (if duration_count st > 0 then
        bnd (int_true_div (duration_total_days st) (duration_count st)) (\<lambda>avg_days.
        bnd (py_round avg_days 1) (\<lambda>average_days.
        bnd (float_div avg_days (float_literal 3044 100)) (\<lambda>months.
        bnd (py_round months 1) (\<lambda>average_months.
        bnd (float_div avg_days (float_literal 36525 100)) (\<lambda>years.
        bnd (py_round years 2) (\<lambda>average_years.
        bnd (py_min (durations st)) (\<lambda>min_days.
        bnd (py_max (durations st)) (\<lambda>max_days.
        Inr (PDict [(PStr ''total_days'', PInt (duration_total_days st)),
                    (PStr ''count'', PInt (duration_count st)),
                    (PStr ''average_days'', PFloat average_days),
                    (PStr ''average_months'', PFloat average_months),
                    (PStr ''average_years'', PFloat average_years),
                    (PStr ''min_days'', PInt min_days),
                    (PStr ''max_days'', PInt max_days)])))))))))
      else
        Inr (PDict [(PStr ''total_days'', PInt (duration_total_days st)),
                    (PStr ''count'', PInt (duration_count st))]))"

definition calculate_statistics ::
  "registry \<Rightarrow> string option \<Rightarrow> string option \<Rightarrow> string option \<Rightarrow> string option
   \<Rightarrow> string option \<Rightarrow> int \<Rightarrow> request list \<Rightarrow> (exn + pyval) \<times> request list" where
  "calculate_statistics reg condition phase status location sponsor max_results sent =
     (case search_trials reg condition phase status location sponsor None None None None
             max_results sent of
        (Inl e, sent') \<Rightarrow> (Inl e, sent')
      | (Inr trials, sent') \<Rightarrow>
          if is_error_dict trials then (Inr trials, sent')
          else
            (bnd (py_len trials) (\<lambda>total_trials.
             bnd (py_iter trials) (\<lambda>ts.
             bnd (nct_ids ts) (\<lambda>ids.
             let st = fold trial_step ts initial_stats
             in bnd (enrollment_value st) (\<lambda>enrollment.
                bnd (duration_value st) (\<lambda>duration.
                Inr (PDict [(PStr ''total_trials'', PInt total_trials),
                            (PStr ''trial_nct_ids'', PList ids),
                            (PStr ''phases'', table_value (phases_table st)),
                            (PStr ''statuses'', table_value (statuses_table st)),
                            (PStr ''studyTypes'', table_value (study_types_table st)),
                            (PStr ''sponsors'', table_value (sponsors_table st)),
                            (PStr ''enrollment'', enrollment),
                            (PStr ''duration'', duration)])))))),
             sent'))"

section \<open>Inputs and notions the properties are stated with\<close>

text \<open>An empty string read as an omitted argument.\<close>

definition omit_empty :: "string option \<Rightarrow> string option" where
  "omit_empty a = (if a = Some [] then None else a)"

text \<open>A registry that never answers in time.\<close>

definition timing_out :: registry where
  "timing_out sent = Inl (Exn Timeout ''Read timed out. (read timeout=30)'')"

text \<open>A record that holds nothing but its eligibility criteria.\<close>

definition criteria_record :: "string \<Rightarrow> pyval" where
  "criteria_record blob = PDict [(PStr ''eligibility'', PDict [(PStr ''criteria'', PStr blob)])]"

text \<open>
  The filter fields of \<^verbatim>\<open>search_trials\<close> that give one clause each, in the order of
  declaration, with the registry's name of the field; and the clauses of the fields of
  such a list that hold a value.
\<close>

definition declared_fields ::
  "string option \<Rightarrow> string option \<Rightarrow> string option \<Rightarrow> string option \<Rightarrow> string option
   \<Rightarrow> string option \<Rightarrow> string option \<Rightarrow> (string \<times> string option) list" where
  "declared_fields condition phase status location sponsor intervention study_type =
     [(''Condition'', condition), (''Phase'', phase), (''OverallStatus'', status),
      (''LocationCountry'', location), (''LeadSponsorName'', sponsor),
      (''InterventionName'', intervention), (''StudyType'', study_type)]"

definition clauses_of :: "(string \<times> string option) list \<Rightarrow> string list" where
  "clauses_of fs =
     map (\<lambda>(field, a). ''AREA['' @ field @ '']'' @ the a)
       (filter (\<lambda>(field, a). given a) fs)"

text \<open>The one request of \<^verbatim>\<open>search_trials\<close>.\<close>

definition search_request ::
  "string option \<Rightarrow> string option \<Rightarrow> string option \<Rightarrow> string option \<Rightarrow> string option
   \<Rightarrow> string option \<Rightarrow> string option \<Rightarrow> string option \<Rightarrow> string option \<Rightarrow> int \<Rightarrow> request" where
  "search_request c p s l sp i ty df dt n =
     \<lparr>req_url = CT_API_BASE,
      req_params = make_params (min n 20) (search_query_parts c p s l sp i ty df dt)\<rparr>"

text \<open>A 200 response with a decoded body, and registries that answer every request alike.\<close>

definition ok_response :: "pyval \<Rightarrow> response" where
  "ok_response data =
     \<lparr>status_code = 200, reason = ''OK'', resp_url = CT_API_BASE, json_body = Inr data\<rparr>"

definition one_study :: registry where
  "one_study sent = Inr (ok_response (PDict [(PStr ''studies'', PList [PDict []])]))"

definition two_studies :: registry where
  "two_studies sent = Inr (ok_response (PDict [(PStr ''studies'', PList [PDict [], PDict []])]))"

text \<open>The compact record of a study that holds no field.\<close>

definition blank_record :: pyval where
  "blank_record =
     PDict
       [(PStr ''nctId'', PStr []), (PStr ''title'', PStr []),
        (PStr ''acronym'', PStr []), (PStr ''status'', PStr []),
        (PStr ''phases'', PList []), (PStr ''studyType'', PStr []),
        (PStr ''conditions'', PList []), (PStr ''interventions'', PList []),
        (PStr ''sponsor'', PStr []), (PStr ''sponsorClass'', PStr []),
        (PStr ''enrollment'', PDict [(PStr ''count'', PInt 0), (PStr ''type'', PStr [])]),
        (PStr ''dates'',
         PDict
          [(PStr ''start'', PStr []), (PStr ''startType'', PStr []),
           (PStr ''completion'', PStr []), (PStr ''completionType'', PStr []),
           (PStr ''primaryCompletion'', PStr []), (PStr ''firstPosted'', PStr []),
           (PStr ''lastUpdated'', PStr []), (PStr ''firstSubmit'', PStr [])]),
        (PStr ''eligibility'',
         PDict
          [(PStr ''criteria'', PStr []), (PStr ''sex'', PStr []),
           (PStr ''minAge'', PStr []), (PStr ''maxAge'', PStr []),
           (PStr ''stdAges'', PList []), (PStr ''healthyVolunteers'', PBool False)]),
        (PStr ''locations'', PList [])]"

text \<open>
  The request of \<^verbatim>\<open>count_trials\<close> for a page, given the continuation token in hand
  (\<^verbatim>\<open>None\<close> for the first page); its two success values; the count a result holds.
\<close>

definition page_request ::
  "string option \<Rightarrow> string option \<Rightarrow> string option \<Rightarrow> string option \<Rightarrow> pyval \<Rightarrow> request" where
  "page_request c p s l tok =
     \<lparr>req_url = CT_API_BASE,
      req_params = page_params (make_params 100 (base_query_parts c p s l)) tok\<rparr>"

definition exact_count :: "int \<Rightarrow> pyval" where
  "exact_count n = PDict [(PStr ''count'', PInt n), (PStr ''is_exact'', PBool True)]"

definition at_least_count :: "int \<Rightarrow> pyval" where
  "at_least_count n =
     PDict [(PStr ''count'', PInt n), (PStr ''is_exact'', PBool False),
            (PStr ''note'', PStr (''At least '' @ str_int n @ '' trials''))]"

definition count_of :: "pyval \<Rightarrow> int option" where
  "count_of v =
     (case v of
        PDict kvs \<Rightarrow> (case lookup kvs (PStr ''count'') of Some (PInt n) \<Rightarrow> Some n | _ \<Rightarrow> None)
      | _ \<Rightarrow> None)"

text \<open>A registry whose every page is full and names a next page.\<close>

definition endless :: registry where
  "endless sent =
     Inr (ok_response (PDict [(PStr ''studies'', PList (replicate 100 (PDict []))),
                              (PStr ''nextPageToken'', PStr ''next'')]))"

text \<open>
  What the properties of \<^verbatim>\<open>extract_sites\<close> are stated with: its request; the Site
  Records of one trial, in the order of its locations, and of a list of trials, in the
  order of the trials; a trial whose nested objects are dictionaries, whose locations can
  be iterated and are dictionaries; and the number of locations of a list of trials.
\<close>

definition is_dict :: "pyval \<Rightarrow> bool" where
  "is_dict x = (case x of PDict kvs \<Rightarrow> True | _ \<Rightarrow> False)"

definition trial_sites :: "pyval \<Rightarrow> pyval list" where
  "trial_sites trial =
     (case trial_locations trial of
        Inl e \<Rightarrow> []
      | Inr (nct_id, locs) \<Rightarrow>
          concat (map (\<lambda>loc. case site_record nct_id loc of Inl e \<Rightarrow> [] | Inr site \<Rightarrow> [site])
                    locs))"

definition flat_sites :: "pyval list \<Rightarrow> pyval list" where
  "flat_sites trials = concat (map trial_sites trials)"

definition well_formed_trial :: "pyval \<Rightarrow> bool" where
  "well_formed_trial trial =
     (case trial_locations trial of
        Inl e \<Rightarrow> False
      | Inr (nct_id, locs) \<Rightarrow> list_all is_dict locs)"

definition sites_request ::
  "string option \<Rightarrow> string option \<Rightarrow> string option \<Rightarrow> string option \<Rightarrow> int \<Rightarrow> request" where
  "sites_request c p s l n =
     \<lparr>req_url = CT_API_BASE, req_params = make_params (min n 20) (base_query_parts c p s l)\<rparr>"

definition location_count :: "pyval list \<Rightarrow> nat" where
  "location_count trials =
     sum_list (map (\<lambda>trial. case trial_locations trial of
                               Inl e \<Rightarrow> 0 | Inr (nct_id, locs) \<Rightarrow> length locs) trials)"

text \<open>
  A study with an identifier and \<open>k\<close> locations that hold no field, a registry that
  answers with two such studies of 30 locations each, and the Site Record of such a
  location.
\<close>

definition trial_with_locations :: "string \<Rightarrow> nat \<Rightarrow> pyval" where
  "trial_with_locations nct k =
     PDict [(PStr ''protocolSection'',
             PDict [(PStr ''identificationModule'', PDict [(PStr ''nctId'', PStr nct)]),
                    (PStr ''contactsLocationsModule'',
                     PDict [(PStr ''locations'', PList (replicate k (PDict [])))])])]"

definition sixty_locations :: registry where
  "sixty_locations sent =
     Inr (ok_response (PDict [(PStr ''studies'',
            PList [trial_with_locations ''NCT01'' 30, trial_with_locations ''NCT02'' 30])]))"

definition blank_site :: "string \<Rightarrow> pyval" where
  "blank_site nct =
     PDict [(PStr ''nctId'', PStr nct), (PStr ''facility'', PStr ''Unknown''),
            (PStr ''city'', PStr []), (PStr ''state'', PStr []),
            (PStr ''country'', PStr []), (PStr ''status'', PStr []),
            (PStr ''geoPoint'', PDict [])]"

text \<open>
  Reading a payload without raising: the value under a key, or the default when the key
  or the dictionary is missing; the nested object under a key; the text of a string and
  the items of a list.
\<close>

definition value_at :: "pyval \<Rightarrow> string \<Rightarrow> pyval \<Rightarrow> pyval" where
  "value_at x k dflt =
     (case x of
        PDict kvs \<Rightarrow> (case lookup kvs (PStr k) of Some v \<Rightarrow> v | None \<Rightarrow> dflt)
      | _ \<Rightarrow> dflt)"

definition sub :: "pyval \<Rightarrow> string \<Rightarrow> pyval" where
  "sub x k = value_at x k (PDict [])"

definition is_str :: "pyval \<Rightarrow> bool" where
  "is_str x = (case x of PStr s \<Rightarrow> True | _ \<Rightarrow> False)"

definition text_of :: "pyval \<Rightarrow> string" where
  "text_of x = (case x of PStr s \<Rightarrow> s | _ \<Rightarrow> [])"

definition items_of :: "pyval \<Rightarrow> pyval list" where
  "items_of x = (case x of PList xs \<Rightarrow> xs | _ \<Rightarrow> [])"

definition is_list_of :: "(pyval \<Rightarrow> bool) \<Rightarrow> pyval \<Rightarrow> bool" where
  "is_list_of ok x = (case x of PList xs \<Rightarrow> list_all ok xs | _ \<Rightarrow> False)"

text \<open>
  A well-formed registry payload: the study and every nested object
  \<^verbatim>\<open>_parse_study\<close> reads are dictionaries where present, the eligibility criteria and
  the intervention descriptions are strings, and interventions, locations and outcomes
  are lists of dictionaries.
\<close>

definition well_formed_study :: "pyval \<Rightarrow> bool" where
  "well_formed_study study =
     (let protocol = sub study ''protocolSection'';
          id_module = sub protocol ''identificationModule'';
          status_module = sub protocol ''statusModule'';
          sponsor_module = sub protocol ''sponsorCollaboratorsModule'';
          design_module = sub protocol ''designModule''
      in is_dict study \<and> is_dict protocol
         \<and> is_dict id_module \<and> is_dict (sub id_module ''organization'')
         \<and> is_dict status_module
         \<and> is_dict (sub status_module ''startDateStruct'')
         \<and> is_dict (sub status_module ''completionDateStruct'')
         \<and> is_dict (sub status_module ''primaryCompletionDateStruct'')
         \<and> is_dict (sub status_module ''studyFirstPostDateStruct'')
         \<and> is_dict (sub status_module ''lastUpdatePostDateStruct'')
         \<and> is_dict sponsor_module
         \<and> is_dict (sub sponsor_module ''leadSponsor'')
         \<and> is_dict (sub sponsor_module ''responsibleParty'')
         \<and> is_dict (sub protocol ''descriptionModule'')
         \<and> is_dict (sub protocol ''conditionsModule'')
         \<and> is_dict design_module
         \<and> is_dict (sub design_module ''enrollmentInfo'')
         \<and> is_dict (sub design_module ''designInfo'')
         \<and> is_dict (sub protocol ''armsInterventionsModule'')
         \<and> is_list_of (\<lambda>interv. is_dict interv \<and> is_str (value_at interv ''description'' (PStr [])))
              (value_at (sub protocol ''armsInterventionsModule'') ''interventions'' (PList []))
         \<and> is_dict (sub protocol ''eligibilityModule'')
         \<and> is_str (value_at (sub protocol ''eligibilityModule'') ''eligibilityCriteria'' (PStr []))
         \<and> is_dict (sub protocol ''contactsLocationsModule'')
         \<and> is_list_of is_dict
              (value_at (sub protocol ''contactsLocationsModule'') ''locations'' (PList []))
         \<and> is_dict (sub protocol ''outcomesModule'')
         \<and> is_list_of is_dict
              (value_at (sub protocol ''outcomesModule'') ''primaryOutcomes'' (PList []))
         \<and> is_list_of is_dict
              (value_at (sub protocol ''outcomesModule'') ''secondaryOutcomes'' (PList [])))"

text \<open>
  The normalized form of an intervention, compact or full, and of an outcome measure,
  read without raising.
\<close>

definition intervention_record :: "bool \<Rightarrow> pyval \<Rightarrow> pyval" where
  "intervention_record full_details interv =
     PDict [(PStr ''type'', value_at interv ''type'' (PStr [])),
            (PStr ''name'', value_at interv ''name'' (PStr [])),
            (PStr ''description'',
             if full_details then value_at interv ''description'' (PStr [])
             else PStr (take 200 (text_of (value_at interv ''description'' (PStr [])))))]"

definition primary_outcome_record :: "pyval \<Rightarrow> pyval" where
  "primary_outcome_record outcome =
     PDict [(PStr ''measure'', value_at outcome ''measure'' (PStr [])),
            (PStr ''description'', value_at outcome ''description'' (PStr [])),
            (PStr ''timeFrame'', value_at outcome ''timeFrame'' (PStr []))]"

definition secondary_outcome_record :: "pyval \<Rightarrow> pyval" where
  "secondary_outcome_record outcome =
     PDict [(PStr ''measure'', value_at outcome ''measure'' (PStr [])),
            (PStr ''timeFrame'', value_at outcome ''timeFrame'' (PStr []))]"

text \<open>
  The keys of a compact record and those a full record adds; the criteria and the
  interventions of a raw study; the descriptions of a list of interventions.
\<close>

definition compact_keys :: "string list" where
  "compact_keys =
     [''nctId'', ''title'', ''acronym'', ''status'', ''phases'', ''studyType'', ''conditions'',
      ''interventions'', ''sponsor'', ''sponsorClass'', ''enrollment'', ''dates'',
      ''eligibility'', ''locations'']"

definition full_detail_keys :: "string list" where
  "full_detail_keys =
     [''officialTitle'', ''organization'', ''investigator'', ''investigatorAffiliation'',
      ''briefSummary'', ''detailedDescription'', ''design'', ''primaryOutcomes'',
      ''secondaryOutcomes'']"

definition raw_criteria :: "pyval \<Rightarrow> pyval" where
  "raw_criteria study =
     value_at (sub (sub study ''protocolSection'') ''eligibilityModule'')
       ''eligibilityCriteria'' (PStr [])"

definition raw_interventions :: "pyval \<Rightarrow> pyval list" where
  "raw_interventions study =
     items_of (value_at (sub (sub study ''protocolSection'') ''armsInterventionsModule'')
                 ''interventions'' (PList []))"

definition descriptions_of :: "pyval \<Rightarrow> pyval list" where
  "descriptions_of interventions =
     map (\<lambda>interv. value_at interv ''description'' (PStr [])) (items_of interventions)"

text \<open>
  A study with criteria of 1000 characters and one intervention whose description has
  300.
\<close>

definition sample_study :: pyval where
  "sample_study =
     PDict [(PStr ''protocolSection'',
       PDict [(PStr ''identificationModule'',
                 PDict [(PStr ''nctId'', PStr ''NCT01''),
                        (PStr ''officialTitle'', PStr ''Official'')]),
              (PStr ''armsInterventionsModule'',
                 PDict [(PStr ''interventions'',
                           PList [PDict [(PStr ''name'', PStr ''insulin''),
                                         (PStr ''description'',
                                          PStr (replicate 300 (CHR ''y'')))]])]),
              (PStr ''eligibilityModule'',
                 PDict [(PStr ''eligibilityCriteria'', PStr (replicate 1000 (CHR ''x'')))])])]"

text \<open>
  The duration accumulators of the statistics: total of days, count, and the durations.
\<close>

definition duration_part :: "stats \<Rightarrow> int \<times> int \<times> int list" where
  "duration_part st = (duration_total_days st, duration_count st, durations st)"

text \<open>
  The date \<^verbatim>\<open>parse_date\<close> finds in a value, if it finds one, and the start and
  completion a record holds (the empty string when missing).
\<close>

definition parsed :: "pyval \<Rightarrow> date option" where
  "parsed x = (case parse_date x of Inr (Some d) \<Rightarrow> Some d | _ \<Rightarrow> None)"

definition record_start :: "pyval \<Rightarrow> pyval" where
  "record_start trial = value_at (sub trial ''dates'') ''start'' (PStr [])"

definition record_completion :: "pyval \<Rightarrow> pyval" where
  "record_completion trial = value_at (sub trial ''dates'') ''completion'' (PStr [])"

text \<open>
  The pair of dates of a record gives no duration: a date is missing (empty or null), or
  is not parsed under any of the four formats, or the completion does not come strictly
  after the start.
\<close>

definition no_duration :: "pyval \<Rightarrow> bool" where
  "no_duration trial =
     (\<not> truthy (record_start trial) \<or> \<not> truthy (record_completion trial)
      \<or> parsed (record_start trial) = None \<or> parsed (record_completion trial) = None
      \<or> ordinal (the (parsed (record_completion trial)))
          \<le> ordinal (the (parsed (record_start trial))))"

text \<open>\<^verbatim>\<open>isinstance(x, int)\<close> for a value that is not a boolean.\<close>

definition is_int :: "pyval \<Rightarrow> bool" where
  "is_int x = (case x of PInt i \<Rightarrow> True | _ \<Rightarrow> False)"

text \<open>
  A step of the loop body that leaves the duration accumulators as they are whenever it
  completes, and a step that, while the enrollment total is an integer, completes, keeps
  that total an integer and leaves the duration accumulators as they are.
\<close>

definition preserves_duration :: "(stats \<Rightarrow> exn + stats) \<Rightarrow> bool" where
  "preserves_duration b = (\<forall>st st'. b st = Inr st' \<longrightarrow> duration_part st' = duration_part st)"

definition steady :: "(stats \<Rightarrow> exn + stats) \<Rightarrow> bool" where
  "steady b =
     (\<forall>st. is_int (enrollment_total st)
        \<longrightarrow> (\<exists>st'. b st = Inr st' \<and> is_int (enrollment_total st')
                   \<and> duration_part st' = duration_part st))"

text \<open>
  A Trial Record as the data model has it: a dictionary whose phases are a list of
  strings, whose status, study type and sponsor are strings, whose enrollment is a
  dictionary with an integer count and whose dates are a dictionary.
\<close>

definition well_formed_record :: "pyval \<Rightarrow> bool" where
  "well_formed_record trial =
     (is_dict trial
      \<and> is_list_of is_str (value_at trial ''phases'' (PList []))
      \<and> is_str (value_at trial ''status'' (PStr ''Unknown''))
      \<and> is_str (value_at trial ''studyType'' (PStr ''Unknown''))
      \<and> is_str (value_at trial ''sponsor'' (PStr ''Unknown''))
      \<and> is_dict (sub trial ''enrollment'')
      \<and> is_int (value_at (sub trial ''enrollment'') ''count'' (PInt 0))
      \<and> is_dict (sub trial ''dates''))"

text \<open>The duration statistics of a single duration of 365 days.\<close>

definition one_year_duration :: pyval where
  "one_year_duration =
     PDict [(PStr ''total_days'', PInt 365), (PStr ''count'', PInt 1),
            (PStr ''average_days'', PFloat (Finite 365)),
            (PStr ''average_months'', PFloat (Finite 12)),
            (PStr ''average_years'', PFloat (Finite 1)),
            (PStr ''min_days'', PInt 365), (PStr ''max_days'', PInt 365)]"

text \<open>
  A raw study that holds a start date, a completion date and an enrollment count only,
  its compact record, and a registry that answers with the two studies of the example,
  enrolling \<open>k1\<close> and \<open>k2\<close> participants.
\<close>

definition dated_study :: "string \<Rightarrow> string \<Rightarrow> int \<Rightarrow> pyval" where
  "dated_study start completion k =
     PDict [(PStr ''protocolSection'',
       PDict [(PStr ''statusModule'',
         PDict [(PStr ''startDateStruct'', PDict [(PStr ''date'', PStr start)]),
                (PStr ''completionDateStruct'', PDict [(PStr ''date'', PStr completion)])]),
              (PStr ''designModule'',
         PDict [(PStr ''enrollmentInfo'', PDict [(PStr ''count'', PInt k)])])])]"

definition dated_record :: "string \<Rightarrow> string \<Rightarrow> int \<Rightarrow> pyval" where
  "dated_record start completion k =
     PDict
       [(PStr ''nctId'', PStr []), (PStr ''title'', PStr []),
        (PStr ''acronym'', PStr []), (PStr ''status'', PStr []),
        (PStr ''phases'', PList []), (PStr ''studyType'', PStr []),
        (PStr ''conditions'', PList []), (PStr ''interventions'', PList []),
        (PStr ''sponsor'', PStr []), (PStr ''sponsorClass'', PStr []),
        (PStr ''enrollment'', PDict [(PStr ''count'', PInt k), (PStr ''type'', PStr [])]),
        (PStr ''dates'',
         PDict
          [(PStr ''start'', PStr start), (PStr ''startType'', PStr []),
           (PStr ''completion'', PStr completion), (PStr ''completionType'', PStr []),
           (PStr ''primaryCompletion'', PStr []), (PStr ''firstPosted'', PStr []),
           (PStr ''lastUpdated'', PStr []), (PStr ''firstSubmit'', PStr [])]),
        (PStr ''eligibility'',
         PDict
          [(PStr ''criteria'', PStr []), (PStr ''sex'', PStr []),
           (PStr ''minAge'', PStr []), (PStr ''maxAge'', PStr []),
           (PStr ''stdAges'', PList []), (PStr ''healthyVolunteers'', PBool False)]),
        (PStr ''locations'', PList [])]"

definition two_dated_studies :: "int \<Rightarrow> int \<Rightarrow> registry" where
  "two_dated_studies k1 k2 sent =
     Inr (ok_response (PDict [(PStr ''studies'',
            PList [dated_study ''2020-01-01'' ''2020-12-31'' k1,
                   dated_study ''2021-06-01'' ''2021-06-01'' k2])]))"

section \<open>Properties\<close>

subsection \<open>Basic facts\<close>

lemma bnd_Inr_iff: "bnd m f = Inr y \<longleftrightarrow> (\<exists>x. m = Inr x \<and> f x = Inr y)"
  by (cases m) (simp_all add: bnd_def)

lemma dict_get_empty: "dict_get (PDict []) k d = Inr d"
  by (simp add: dict_get_def)

lemma map_exn_length: "map_exn f xs = Inr ys \<Longrightarrow> length ys = length xs"
  by (induction xs arbitrary: ys) (auto split: sum.splits)

lemma py_iter_length: "py_iter x = Inr xs \<Longrightarrow> py_len x = Inr (int (length xs))"
  by (cases x) (auto simp: py_iter_def py_len_def)

lemma catch_returns: "\<exists>v. catch r = Inr v"
  by (cases r) (simp_all add: catch_def)

lemma catch_Inl: "catch (Inl e) = Inr (error_value e)"
  by (simp add: catch_def)

lemma catch_Inr_PList: "catch r = Inr (PList xs) \<Longrightarrow> r = Inr (PList xs)"
  by (cases r) (simp_all add: catch_def error_value_def)

lemma raise_for_status_ok: "raise_for_status (ok_response data) = Inr ()"
  by (simp add: raise_for_status_def ok_response_def)

lemma checked_json_ok: "checked_json (Inr (ok_response data)) = Inr data"
  by (simp add: checked_json_def bnd_def raise_for_status_ok) (simp add: ok_response_def)

lemma parse_study_empty: "parse_study (PDict []) False = Inr blank_record"
  by (simp add: parse_study_def bnd_def dict_get_empty parse_identification_def
        parse_status_def get_in_def parse_sponsor_def parse_description_def
        parse_conditions_def parse_design_def parse_interventions_def parse_eligibility_def
        parse_locations_def parse_outcomes_def py_iter_def py_slice_to_def blank_record_def)

lemma search_trials_sent:
  "snd (search_trials reg c p s l sp i ty df dt n sent)
   = sent @ [search_request c p s l sp i ty df dt n]"
  by (simp add: search_trials_def requests_get_def Let_def search_request_def)

subsection \<open>Failures at the client boundary\<close>

text \<open>
  The three operations whose body is inside \<^verbatim>\<open>try\<close> return a value whatever the
  registry does, and the error value of the exception when the request, the status
  check or the decoding of the body raises.
\<close>

lemma count_trials_returns: "\<exists>v. fst (count_trials reg c p s l sent) = Inr v"
  by (simp add: count_trials_def catch_returns split: prod.splits)

lemma search_trials_returns: "\<exists>v. fst (search_trials reg c p s l sp i ty df dt n sent) = Inr v"
  by (simp add: search_trials_def requests_get_def Let_def catch_returns)

lemma extract_sites_returns: "\<exists>v. fst (extract_sites reg c p s l n sent) = Inr v"
  by (simp add: extract_sites_def requests_get_def Let_def catch_returns)

lemma search_trials_failure:
  "checked_json (reg (sent @ [search_request c p s l sp i ty df dt n])) = Inl e
   \<Longrightarrow> fst (search_trials reg c p s l sp i ty df dt n sent) = Inr (error_value e)"
  by (simp add: search_trials_def requests_get_def Let_def search_request_def bnd_def catch_Inl)

lemma extract_sites_failure:
  "checked_json (reg (sent @ [\<lparr>req_url = CT_API_BASE,
       req_params = make_params (min n 20) (base_query_parts c p s l)\<rparr>])) = Inl e
   \<Longrightarrow> fst (extract_sites reg c p s l n sent) = Inr (error_value e)"
  by (simp add: extract_sites_def requests_get_def Let_def bnd_def catch_Inl)

lemma count_trials_failure:
  "checked_json (reg (sent @ [\<lparr>req_url = CT_API_BASE,
       req_params = make_params 100 (base_query_parts c p s l)\<rparr>])) = Inl e
   \<Longrightarrow> fst (count_trials reg c p s l sent) = Inr (error_value e)"
  by (simp add: count_trials_def max_pages_def requests_get_def page_params_def read_page_def
        bnd_def catch_Inl)

text \<open>
  Claim C1, at an input where the code departs from it. \<^verbatim>\<open>show_trials\<close> has no
  handler: when the request times out, the exception of \<^verbatim>\<open>requests.get\<close> is what the
  caller gets, not an \<^verbatim>\<open>{"error": ...}\<close> value.
\<close>

theorem show_trials_propagates:
  "show_trials timing_out ''NCT03264352'' []
   = (Inl (Exn Timeout ''Read timed out. (read timeout=30)''),
      [\<lparr>req_url = ''https://clinicaltrials.gov/api/v2/studies/NCT03264352'', req_params = []\<rparr>])"
  by (simp add: show_trials_def requests_get_def timing_out_def bnd_def CT_API_BASE_def)

subsection \<open>Empty filter values\<close>

lemma given_omit_empty: "given (omit_empty a) = given a"
  by (cases a) (auto simp: given_def omit_empty_def)

lemma the_omit_empty: "given a \<Longrightarrow> the (omit_empty a) = the a"
  by (cases a) (auto simp: given_def omit_empty_def)

lemma area_omit_empty: "area field (omit_empty a) = area field a"
  by (simp add: area_def given_omit_empty the_omit_empty)

lemma date_range_part_omit_empty:
  "date_range_part (omit_empty a) (omit_empty b) = date_range_part a b"
  by (simp add: date_range_part_def given_omit_empty the_omit_empty)

lemma base_query_parts_omit_empty:
  "base_query_parts (omit_empty c) (omit_empty p) (omit_empty s) (omit_empty l)
   = base_query_parts c p s l"
  by (simp add: base_query_parts_def area_omit_empty)

lemma search_query_parts_omit_empty:
  "search_query_parts (omit_empty c) (omit_empty p) (omit_empty s) (omit_empty l)
     (omit_empty sp) (omit_empty i) (omit_empty ty) (omit_empty df) (omit_empty dt)
   = search_query_parts c p s l sp i ty df dt"
  by (simp add: search_query_parts_def area_omit_empty base_query_parts_omit_empty
        date_range_part_omit_empty)

lemma omit_empty_None: "omit_empty None = None"
  by (simp add: omit_empty_def)

text \<open>
  Claim C10. For each of \<^verbatim>\<open>search_trials\<close>, \<^verbatim>\<open>count_trials\<close>, \<^verbatim>\<open>extract_sites\<close>
  and \<^verbatim>\<open>calculate_statistics\<close>, passing the empty string for any of the filter
  fields gives the same requests (the history returned holds their parameters) and the
  same result as omitting those fields: a call equals the call in which every argument
  that is \<^verbatim>\<open>""\<close> is replaced by \<^verbatim>\<open>None\<close>. An empty string adds no \<^verbatim>\<open>AREA\<close> clause
  and no date range.
\<close>

theorem empty_string_is_absent:
  "search_trials reg (omit_empty c) (omit_empty p) (omit_empty s) (omit_empty l)
     (omit_empty sp) (omit_empty i) (omit_empty ty) (omit_empty df) (omit_empty dt) n sent
   = search_trials reg c p s l sp i ty df dt n sent
   \<and> count_trials reg (omit_empty c) (omit_empty p) (omit_empty s) (omit_empty l) sent
     = count_trials reg c p s l sent
   \<and> extract_sites reg (omit_empty c) (omit_empty p) (omit_empty s) (omit_empty l) n sent
     = extract_sites reg c p s l n sent
   \<and> calculate_statistics reg (omit_empty c) (omit_empty p) (omit_empty s) (omit_empty l)
       (omit_empty sp) n sent
     = calculate_statistics reg c p s l sp n sent
   \<and> omit_empty (Some []) = None
   \<and> area field (Some []) = []
   \<and> date_range_part (Some []) (Some []) = []"
proof -
  have s: "search_trials reg (omit_empty c) (omit_empty p) (omit_empty s) (omit_empty l)
     (omit_empty sp) (omit_empty i) (omit_empty ty) (omit_empty df) (omit_empty dt) n sent
   = search_trials reg c p s l sp i ty df dt n sent" for i ty df dt
    unfolding search_trials_def by (simp only: search_query_parts_omit_empty)
  have "search_trials reg (omit_empty c) (omit_empty p) (omit_empty s) (omit_empty l)
     (omit_empty sp) (omit_empty None) (omit_empty None) (omit_empty None) (omit_empty None) n sent
   = search_trials reg c p s l sp None None None None n sent"
    by (rule s)
  then have cs: "calculate_statistics reg (omit_empty c) (omit_empty p) (omit_empty s)
       (omit_empty l) (omit_empty sp) n sent = calculate_statistics reg c p s l sp n sent"
    unfolding calculate_statistics_def by (simp only: omit_empty_None)
  have ct: "count_trials reg (omit_empty c) (omit_empty p) (omit_empty s) (omit_empty l) sent
     = count_trials reg c p s l sent"
    unfolding count_trials_def by (simp only: base_query_parts_omit_empty)
  have ex: "extract_sites reg (omit_empty c) (omit_empty p) (omit_empty s) (omit_empty l) n sent
     = extract_sites reg c p s l n sent"
    unfolding extract_sites_def by (simp only: base_query_parts_omit_empty)
  have "omit_empty (Some []) = None" "area field (Some []) = []"
    "date_range_part (Some []) (Some []) = []"
    by (simp_all add: omit_empty_def area_def date_range_part_def given_def)
  with s cs ct ex show ?thesis by blast
qed

subsection \<open>Errors passed through by the aggregator\<close>

text \<open>
  Claim C5. \<^verbatim>\<open>analyze_criteria\<close> given an error value (a dictionary with the key
  \<^verbatim>\<open>"error"\<close>) returns that value unchanged, and when the search inside
  \<^verbatim>\<open>calculate_statistics\<close> yields an error value, \<^verbatim>\<open>calculate_statistics\<close> returns
  that same value.
\<close>

theorem error_passthrough:
  "(is_error_dict e \<longrightarrow> analyze_criteria e = Inr e)
   \<and> (search_trials reg c p s l sp None None None None n sent = (Inr e, sent')
        \<and> is_error_dict e
      \<longrightarrow> calculate_statistics reg c p s l sp n sent = (Inr e, sent'))"
  by (simp add: analyze_criteria_def calculate_statistics_def)

theorem error_passthrough_witness:
  "is_error_dict (PDict [(PStr ''error'', PStr ''boom'')])
   \<and> analyze_criteria (PDict [(PStr ''error'', PStr ''boom'')])
     = Inr (PDict [(PStr ''error'', PStr ''boom'')])
   \<and> search_trials timing_out (Some ''asthma'') None None None None None None None None 20 []
     = (Inr (PDict [(PStr ''error'', PStr ''Read timed out. (read timeout=30)'')]),
        [\<lparr>req_url = CT_API_BASE,
          req_params = [(''format'', PStr ''json''), (''pageSize'', PInt 20),
                        (''query.term'', PStr ''AREA[Condition]asthma'')]\<rparr>])
   \<and> calculate_statistics timing_out (Some ''asthma'') None None None None 20 []
     = (Inr (PDict [(PStr ''error'', PStr ''Read timed out. (read timeout=30)'')]),
        [\<lparr>req_url = CT_API_BASE,
          req_params = [(''format'', PStr ''json''), (''pageSize'', PInt 20),
                        (''query.term'', PStr ''AREA[Condition]asthma'')]\<rparr>])"
proof -
  have e: "is_error_dict (PDict [(PStr ''error'', PStr ''boom'')])"
    by (simp add: is_error_dict_def key_eq_def)
  have e': "is_error_dict (PDict [(PStr ''error'', PStr ''Read timed out. (read timeout=30)'')])"
    by (simp add: is_error_dict_def key_eq_def)
  have st: "search_trials timing_out (Some ''asthma'') None None None None None None None None 20 []
     = (Inr (PDict [(PStr ''error'', PStr ''Read timed out. (read timeout=30)'')]),
        [\<lparr>req_url = CT_API_BASE,
          req_params = [(''format'', PStr ''json''), (''pageSize'', PInt 20),
                        (''query.term'', PStr ''AREA[Condition]asthma'')]\<rparr>])"
    by (simp add: search_trials_def requests_get_def timing_out_def make_params_def
          search_query_parts_def base_query_parts_def area_def given_def date_range_part_def
          catch_def checked_json_def bnd_def error_value_def)
  from e e' st
    error_passthrough [of "PDict [(PStr ''error'', PStr ''boom'')]"]
    error_passthrough [where reg = timing_out and c = "Some ''asthma''" and p = None
       and s = None and l = None and sp = None and n = 20 and sent = "[]"
       and e = "PDict [(PStr ''error'', PStr ''Read timed out. (read timeout=30)'')]"]
  show ?thesis by simp
qed

subsection \<open>Query construction\<close>

lemma search_query_parts_clauses:
  "search_query_parts c p s l sp i ty df dt
   = clauses_of (declared_fields c p s l sp i ty) @ date_range_part df dt"
  by (simp add: search_query_parts_def base_query_parts_def area_def clauses_of_def
        declared_fields_def)

lemma date_range_part_length:
  "length (date_range_part df dt) = (if given df \<or> given dt then 1 else 0)"
  by (simp add: date_range_part_def)

text \<open>
  Claim C8, amended. The request of \<^verbatim>\<open>search_trials\<close> carries \<^verbatim>\<open>format\<close>,
  \<^verbatim>\<open>pageSize\<close> and, when there is a clause, \<^verbatim>\<open>query.term\<close>, the clauses joined with
  \<^verbatim>\<open>" AND "\<close>. The clauses are, in the order of declaration, one
  \<^verbatim>\<open>AREA[Field]value\<close> for each of the seven fields condition, phase, status, location,
  sponsor, intervention, study type that holds a string that is not empty, then one
  \<^verbatim>\<open>StartDate\<close> range when a start-date bound is not empty. There is no clause, and no
  \<^verbatim>\<open>query.term\<close>, exactly when every field is omitted or empty.
\<close>

theorem query_construction:
  "snd (search_trials reg c p s l sp i ty df dt n sent)
     = sent @ [\<lparr>req_url = CT_API_BASE,
                req_params =
                  [(''format'', PStr ''json''), (''pageSize'', PInt (min n 20))]
                  @ (if search_query_parts c p s l sp i ty df dt \<noteq> []
                     then [(''query.term'',
                            PStr (join '' AND '' (search_query_parts c p s l sp i ty df dt)))]
                     else [])\<rparr>]
   \<and> search_query_parts c p s l sp i ty df dt
     = clauses_of (declared_fields c p s l sp i ty) @ date_range_part df dt
   \<and> length (clauses_of (declared_fields c p s l sp i ty))
     = length (filter given [c, p, s, l, sp, i, ty])
   \<and> length (date_range_part df dt) = (if given df \<or> given dt then 1 else 0)
   \<and> (search_query_parts c p s l sp i ty df dt = []
      \<longleftrightarrow> \<not> (given c \<or> given p \<or> given s \<or> given l \<or> given sp \<or> given i \<or> given ty
             \<or> given df \<or> given dt))"
proof -
  have 1: "snd (search_trials reg c p s l sp i ty df dt n sent)
     = sent @ [\<lparr>req_url = CT_API_BASE,
                req_params =
                  [(''format'', PStr ''json''), (''pageSize'', PInt (min n 20))]
                  @ (if search_query_parts c p s l sp i ty df dt \<noteq> []
                     then [(''query.term'',
                            PStr (join '' AND '' (search_query_parts c p s l sp i ty df dt)))]
                     else [])\<rparr>]"
    by (simp add: search_trials_sent search_request_def make_params_def)
  have 3: "length (clauses_of (declared_fields c p s l sp i ty))
     = length (filter given [c, p, s, l, sp, i, ty])"
    by (simp add: clauses_of_def declared_fields_def)
  have 5: "(search_query_parts c p s l sp i ty df dt = []
      \<longleftrightarrow> \<not> (given c \<or> given p \<or> given s \<or> given l \<or> given sp \<or> given i \<or> given ty
             \<or> given df \<or> given dt))"
    by (simp add: search_query_parts_def base_query_parts_def area_def date_range_part_def)
  from 1 3 5 search_query_parts_clauses date_range_part_length show ?thesis by blast
qed

theorem query_construction_witness:
  "snd (search_trials timing_out (Some ''diabetes'') (Some ''Phase 3'') None None None None None
          (Some ''2020-01-01'') None 10 [])
     = [\<lparr>req_url = CT_API_BASE,
         req_params =
           [(''format'', PStr ''json''), (''pageSize'', PInt 10),
            (''query.term'',
             PStr ''AREA[Condition]diabetes AND AREA[Phase]Phase 3 AND AREA[StartDate]RANGE[2020-01-01,MAX]'')]\<rparr>]
   \<and> clauses_of (declared_fields (Some ''diabetes'') (Some ''Phase 3'') None None None None None)
     = [''AREA[Condition]diabetes'', ''AREA[Phase]Phase 3'']
   \<and> date_range_part (Some ''2020-01-01'') None = [''AREA[StartDate]RANGE[2020-01-01,MAX]'']"
proof -
  have c: "clauses_of (declared_fields (Some ''diabetes'') (Some ''Phase 3'') None None None None None)
     = [''AREA[Condition]diabetes'', ''AREA[Phase]Phase 3'']"
    by (simp add: clauses_of_def declared_fields_def given_def)
  have d: "date_range_part (Some ''2020-01-01'') None = [''AREA[StartDate]RANGE[2020-01-01,MAX]'']"
    by (simp add: date_range_part_def given_def)
  from query_construction [where reg = timing_out and c = "Some ''diabetes''"
      and p = "Some ''Phase 3''" and s = None and l = None and sp = None and i = None
      and ty = None and df = "Some ''2020-01-01''" and dt = None and n = 10 and sent = "[]"]
  have "snd (search_trials timing_out (Some ''diabetes'') (Some ''Phase 3'') None None None None
          None (Some ''2020-01-01'') None 10 [])
     = [\<lparr>req_url = CT_API_BASE,
         req_params =
           [(''format'', PStr ''json''), (''pageSize'', PInt 10),
            (''query.term'',
             PStr (join '' AND '' ([''AREA[Condition]diabetes'', ''AREA[Phase]Phase 3'']
                    @ [''AREA[StartDate]RANGE[2020-01-01,MAX]''])))]\<rparr>]"
    by (simp add: c d)
  with c d show ?thesis by simp
qed

text \<open>
  The claim as stated fails for a field that is not null but empty: with
  \<^verbatim>\<open>condition=""\<close> and nothing else there is one non-null field, no clause and no
  \<^verbatim>\<open>query.term\<close>. And the two start-date bounds, both given, are two non-null
  fields with one clause.
\<close>

theorem non_null_empty_field_counterexample:
  "Some [] \<noteq> (None :: string option)
   \<and> search_query_parts (Some []) None None None None None None None None = []
   \<and> snd (search_trials timing_out (Some []) None None None None None None None None 10 [])
     = [\<lparr>req_url = CT_API_BASE,
         req_params = [(''format'', PStr ''json''), (''pageSize'', PInt 10)]\<rparr>]
   \<and> length (filter (\<lambda>a. a \<noteq> None)
         [None, None, None, None, None, None, None, Some ''2020-01-01'', Some ''2020-12-31''])
     = 2
   \<and> search_query_parts None None None None None None None
         (Some ''2020-01-01'') (Some ''2020-12-31'')
     = [''AREA[StartDate]RANGE[2020-01-01,2020-12-31]'']"
  by (simp add: search_trials_sent search_request_def make_params_def search_query_parts_def
        base_query_parts_def area_def date_range_part_def given_def)

subsection \<open>The page size of a search\<close>

lemma search_trials_length:
  assumes "fst (search_trials reg c p s l sp i ty df dt n sent) = Inr (PList recs)"
    and "read_page (reg (sent @ [search_request c p s l sp i ty df dt n])) = Inr (k, tok)"
  shows "int (length recs) = k"
proof -
  let ?got = "reg (sent @ [search_request c p s l sp i ty df dt n])"
  from assms(1) have "bnd (checked_json ?got) (\<lambda>data.
             bnd (dict_get data ''studies'' (PList [])) (\<lambda>full_studies.
             bnd (py_iter full_studies) (\<lambda>studies.
             bnd (map_exn (\<lambda>study. parse_study study False) studies) (\<lambda>records.
             Inr (PList records))))) = Inr (PList recs)"
    by (simp add: search_trials_def requests_get_def Let_def search_request_def catch_Inr_PList)
  then obtain data full_studies studies where
    d: "checked_json ?got = Inr data"
    and f: "dict_get data ''studies'' (PList []) = Inr full_studies"
    and it: "py_iter full_studies = Inr studies"
    and m: "map_exn (\<lambda>study. parse_study study False) studies = Inr recs"
    by (auto simp: bnd_Inr_iff)
  from assms(2) d f have "py_len full_studies = Inr k"
    by (auto simp: read_page_def bnd_Inr_iff)
  with py_iter_length [OF it] map_exn_length [OF m] show ?thesis by simp
qed

text \<open>
  Claim C2, amended. For \<open>N > 20\<close>, \<^verbatim>\<open>search_trials\<close> sends the same request and
  returns the same result as for \<open>N = 20\<close>. Its request asks for a page of
  \<open>min N 20\<close>, and the list it returns has one record for each study of the response,
  with no cap of its own: it holds at most \<open>min N 20\<close> records when the registry's
  page holds at most that many studies.
\<close>

theorem search_trials_page_size:
  "(20 < n \<longrightarrow> search_trials reg c p s l sp i ty df dt n sent
               = search_trials reg c p s l sp i ty df dt 20 sent)
   \<and> snd (search_trials reg c p s l sp i ty df dt n sent)
     = sent @ [\<lparr>req_url = CT_API_BASE,
                req_params = make_params (min n 20) (search_query_parts c p s l sp i ty df dt)\<rparr>]
   \<and> (fst (search_trials reg c p s l sp i ty df dt n sent) = Inr (PList recs)
      \<and> read_page (reg (sent @ [search_request c p s l sp i ty df dt n])) = Inr (k, tok)
      \<longrightarrow> int (length recs) = k \<and> (k \<le> min n 20 \<longrightarrow> int (length recs) \<le> min n 20))"
proof -
  have "20 < n \<Longrightarrow> search_trials reg c p s l sp i ty df dt n sent
               = search_trials reg c p s l sp i ty df dt 20 sent"
    by (simp add: search_trials_def)
  moreover have "snd (search_trials reg c p s l sp i ty df dt n sent)
     = sent @ [\<lparr>req_url = CT_API_BASE,
                req_params = make_params (min n 20) (search_query_parts c p s l sp i ty df dt)\<rparr>]"
    by (simp add: search_trials_sent search_request_def)
  ultimately show ?thesis using search_trials_length by blast
qed

theorem search_trials_page_size_witness:
  "(20::int) < 25
   \<and> search_trials one_study None None None None None None None None None 25 []
     = search_trials one_study None None None None None None None None None 20 []
   \<and> fst (search_trials one_study None None None None None None None None None 25 [])
     = Inr (PList [blank_record])
   \<and> read_page (one_study ([] @ [search_request None None None None None None None None None 25]))
     = Inr (1, PNone)
   \<and> int (length [blank_record]) \<le> min 25 20"
proof -
  have r: "fst (search_trials one_study None None None None None None None None None 25 [])
     = Inr (PList [blank_record])"
    by (simp add: search_trials_def requests_get_def Let_def one_study_def checked_json_ok
        bnd_def dict_get_def key_eq_def py_iter_def parse_study_empty catch_def)
  have p: "read_page (one_study ([] @ [search_request None None None None None None None None None 25]))
     = Inr (1, PNone)"
    by (simp add: read_page_def one_study_def checked_json_ok bnd_def dict_get_def key_eq_def
          py_len_def)
  from r p search_trials_page_size [where reg = one_study and n = 25 and sent = "[]"
      and c = None and p = None and s = None and l = None and sp = None and i = None
      and ty = None and df = None and dt = None and recs = "[blank_record]" and k = 1
      and tok = PNone]
  show ?thesis by simp
qed

text \<open>
  The claim as stated fails when the registry sends more studies than the page size
  asked for: with \<^verbatim>\<open>max_results=1\<close> and a response of two studies, two records are
  returned.
\<close>

theorem page_size_not_enforced_counterexample:
  "fst (search_trials two_studies None None None None None None None None None 1 [])
     = Inr (PList [blank_record, blank_record])
   \<and> \<not> int (length [blank_record, blank_record]) \<le> min 1 20"
  by (simp add: search_trials_def requests_get_def Let_def two_studies_def checked_json_ok
        bnd_def dict_get_def key_eq_def py_iter_def parse_study_empty catch_def)

subsection \<open>Inclusion and exclusion fragments\<close>

lemma split_inclusion_age:
  "split ''Inclusion Criteria: age 18+'' ''Inclusion Criteria'' = ['''', '': age 18+'']"
  by (simp add: split_def)

lemma strip_age: "strip '': age 18+'' = '': age 18+''"
  by (simp add: strip_def is_space_def)

lemma contains_inclusion_age: "contains ''Inclusion Criteria'' ''Inclusion Criteria: age 18+''"
  by simp

lemma contains_exclusion_age: "\<not> contains ''Exclusion Criteria'' ''Inclusion Criteria: age 18+''"
  by simp

lemma contains_exclusion_rest: "\<not> contains ''Exclusion Criteria'' '': age 18+''"
  by simp

lemma inclusion_block_age:
  "inclusion_block (PStr ''Inclusion Criteria: age 18+'') = Inr ['': age 18+'']"
  unfolding inclusion_block_def py_in_def split_part_def bnd_def
  by (simp add: contains_inclusion_age contains_exclusion_rest split_inclusion_age strip_age
        del: contains.simps)

lemma exclusion_block_age:
  "exclusion_block (PStr ''Inclusion Criteria: age 18+'') = Inr []"
  unfolding exclusion_block_def py_in_def split_part_def bnd_def
  by (simp add: contains_exclusion_age del: contains.simps)

lemma criteria_record_get:
  "dict_get (criteria_record blob) ''eligibility'' (PDict [])
     = Inr (PDict [(PStr ''criteria'', PStr blob)])"
  "dict_get (PDict [(PStr ''criteria'', PStr blob)]) ''criteria'' (PStr []) = Inr (PStr blob)"
  by (simp_all add: criteria_record_def dict_get_def key_eq_def)

text \<open>
  Claim C4, amended. \<^verbatim>\<open>analyze_criteria\<close> applied to a single record whose criteria
  are exactly \<^verbatim>\<open>"Inclusion Criteria: age 18+"\<close> returns one inclusion fragment,
  \<^verbatim>\<open>": age 18+"\<close>, and no exclusion fragment: the fragment is the text after the marker
  \<^verbatim>\<open>"Inclusion Criteria"\<close> with blanks stripped, and the colon is not a blank.
\<close>

theorem inclusion_only_keeps_colon:
  assumes "dict_get trial ''eligibility'' (PDict []) = Inr eligibility"
    and "dict_get eligibility ''criteria'' (PStr []) = Inr (PStr ''Inclusion Criteria: age 18+'')"
  shows "analyze_criteria (PList [trial])
         = Inr (PDict [(PStr ''inclusion'', PList [PStr '': age 18+'']),
                       (PStr ''exclusion'', PList [])])"
  using assms
  by (simp add: analyze_criteria_def is_error_dict_def py_iter_def bnd_def criteria_step_def
        inclusion_block_age exclusion_block_age)

theorem inclusion_only_keeps_colon_witness:
  "analyze_criteria (PList [criteria_record ''Inclusion Criteria: age 18+''])
   = Inr (PDict [(PStr ''inclusion'', PList [PStr '': age 18+'']),
                 (PStr ''exclusion'', PList [])])"
  using inclusion_only_keeps_colon [OF criteria_record_get] .

text \<open>The value the claim states is not what is returned.\<close>

theorem inclusion_fragment_counterexample:
  "analyze_criteria (PList [criteria_record ''Inclusion Criteria: age 18+''])
   \<noteq> Inr (PDict [(PStr ''inclusion'', PList [PStr ''age 18+'']),
                 (PStr ''exclusion'', PList [])])"
  by (simp add: analyze_criteria_def is_error_dict_def py_iter_def bnd_def criteria_step_def
        inclusion_block_age exclusion_block_age criteria_record_get)

subsection \<open>Counting over pages\<close>

lemma page_params_again:
  "truthy t \<Longrightarrow> page_params (page_params ps t') t = page_params ps t"
  by (simp add: page_params_def)

lemma page_params_None: "page_params ps PNone = ps"
  by (simp add: page_params_def)

lemma page_params_page_size:
  "map_of (page_params ps tok) ''pageSize'' = map_of ps ''pageSize''"
  by (simp add: page_params_def update_conv')

lemma count_loop_requests:
  "\<exists>rs. snd (count_loop reg ps tc pc tok sent) = sent @ rs
        \<and> length rs \<le> max_pages - pc
        \<and> (\<forall>r \<in> set rs. req_url r = CT_API_BASE
              \<and> map_of (req_params r) ''pageSize'' = map_of ps ''pageSize'')"
proof (induction reg ps tc pc tok sent rule: count_loop.induct)
  case (1 reg params total_count page_count next_token sent)
  let ?rq = "\<lparr>req_url = CT_API_BASE, req_params = page_params params next_token\<rparr>"
  show ?case
  proof (cases "page_count < max_pages")
    case False
    then show ?thesis by (subst count_loop.simps) simp
  next
    case lt: True
    show ?thesis
    proof (cases "read_page (reg (sent @ [?rq]))")
      case (Inl e)
      with lt have "snd (count_loop reg params total_count page_count next_token sent) = sent @ [?rq]"
        by (subst count_loop.simps) (simp add: requests_get_def)
      with lt show ?thesis by (auto simp: page_params_page_size)
    next
      case (Inr nt)
      obtain n t where nt: "nt = (n, t)" by (cases nt)
      show ?thesis
      proof (cases "truthy t")
        case False
        with lt Inr nt
        have "snd (count_loop reg params total_count page_count next_token sent) = sent @ [?rq]"
          by (subst count_loop.simps) (simp add: requests_get_def)
        with lt show ?thesis by (auto simp: page_params_page_size)
      next
        case True
        with lt Inr nt
        have eq: "count_loop reg params total_count page_count next_token sent
            = count_loop reg (page_params params next_token) (total_count + n)
                (page_count + 1) t (sent @ [?rq])"
          by (subst count_loop.simps) (simp add: requests_get_def)
        have "\<exists>rs. snd (count_loop reg (page_params params next_token) (total_count + n)
                (page_count + 1) t (sent @ [?rq])) = (sent @ [?rq]) @ rs
            \<and> length rs \<le> max_pages - (page_count + 1)
            \<and> (\<forall>r \<in> set rs. req_url r = CT_API_BASE
                  \<and> map_of (req_params r) ''pageSize''
                    = map_of (page_params params next_token) ''pageSize'')"
          using "1.IH" [of "reg (sent @ [?rq])" "sent @ [?rq]" "(n, t)" n t] lt Inr nt True
          by (simp add: requests_get_def)
        then obtain rs where
          rs: "snd (count_loop reg (page_params params next_token) (total_count + n)
                (page_count + 1) t (sent @ [?rq])) = sent @ ?rq # rs"
          and len: "length rs \<le> max_pages - (page_count + 1)"
          and each: "\<forall>r \<in> set rs. req_url r = CT_API_BASE
                  \<and> map_of (req_params r) ''pageSize'' = map_of params ''pageSize''"
          by (auto simp: page_params_page_size)
        from rs eq have "snd (count_loop reg params total_count page_count next_token sent)
            = sent @ (?rq # rs)" by simp
        moreover from len lt have "length (?rq # rs) \<le> max_pages - page_count" by simp
        moreover from each have "\<forall>r \<in> set (?rq # rs). req_url r = CT_API_BASE
                  \<and> map_of (req_params r) ''pageSize'' = map_of params ''pageSize''"
          by (simp add: page_params_page_size)
        ultimately show ?thesis by blast
      qed
    qed
  qed
qed


lemma count_loop_bound:
  assumes "\<forall>h k t. read_page (reg h) = Inr (k, t) \<longrightarrow> k \<le> 100"
    and "fst (count_loop reg ps tc pc tok sent) = Inr v"
  shows "\<exists>n. count_of v = Some n \<and> n \<le> tc + 100 * int (max_pages - pc)"
  using assms
proof (induction reg ps tc pc tok sent rule: count_loop.induct)
  case (1 reg params total_count page_count next_token sent)
  let ?rq = "\<lparr>req_url = CT_API_BASE, req_params = page_params params next_token\<rparr>"
  note small = "1.prems"(1) and res = "1.prems"(2)
  show ?case
  proof (cases "page_count < max_pages")
    case False
    with res have "v = PDict [(PStr ''count'', PInt total_count),
                     (PStr ''is_exact'', PBool False),
                     (PStr ''note'', PStr (''At least '' @ str_int total_count @ '' trials''))]"
      by (subst (asm) count_loop.simps) simp
    then show ?thesis by (simp add: count_of_def key_eq_def)
  next
    case lt: True
    show ?thesis
    proof (cases "read_page (reg (sent @ [?rq]))")
      case (Inl e)
      with lt res show ?thesis
        by (subst (asm) count_loop.simps) (simp add: requests_get_def)
    next
      case (Inr nt)
      obtain n t where nt: "nt = (n, t)" by (cases nt)
      from small Inr nt have n: "n \<le> 100" by blast
      show ?thesis
      proof (cases "truthy t")
        case False
        with lt Inr nt res
        have "v = PDict [(PStr ''count'', PInt (total_count + n)), (PStr ''is_exact'', PBool True)]"
          by (subst (asm) count_loop.simps) (simp add: requests_get_def)
        with n lt show ?thesis by (simp add: count_of_def key_eq_def)
      next
        case True
        with lt Inr nt
        have eq: "count_loop reg params total_count page_count next_token sent
            = count_loop reg (page_params params next_token) (total_count + n)
                (page_count + 1) t (sent @ [?rq])"
          by (subst count_loop.simps) (simp add: requests_get_def)
        have "\<exists>m. count_of v = Some m
                \<and> m \<le> total_count + n + 100 * int (max_pages - (page_count + 1))"
          using "1.IH" [of "reg (sent @ [?rq])" "sent @ [?rq]" "(n, t)" n t] lt Inr nt True
            small res eq
          by (simp add: requests_get_def)
        then obtain m where m: "count_of v = Some m"
          and le: "m \<le> total_count + n + 100 * int (max_pages - (page_count + 1))" by blast
        from le n lt have "m \<le> total_count + 100 * int (max_pages - page_count)" by simp
        with m show ?thesis by blast
      qed
    qed
  qed
qed

lemma count_of_error: "count_of (error_value e) = None"
  by (simp add: count_of_def error_value_def key_eq_def)

lemma count_trials_bound:
  assumes "\<forall>h k t. read_page (reg h) = Inr (k, t) \<longrightarrow> k \<le> 100"
    and "fst (count_trials reg c p s l sent) = Inr v" and "count_of v = Some n"
  shows "n \<le> 300"
proof (cases "fst (count_loop reg (make_params 100 (base_query_parts c p s l)) 0 0 PNone sent)")
  case (Inl e)
  with assms(2) have "v = error_value e"
    by (simp add: count_trials_def catch_def split: prod.splits)
  with assms(3) show ?thesis by (simp add: count_of_error)
next
  case (Inr w)
  with assms(2) have "v = w"
    by (simp add: count_trials_def catch_def split: prod.splits)
  with count_loop_bound [OF assms(1) Inr] assms(3) show ?thesis
    by (simp add: max_pages_def)
qed

lemma count_trials_requests:
  "\<exists>rs. snd (count_trials reg c p s l sent) = sent @ rs \<and> length rs \<le> 3
        \<and> (\<forall>r \<in> set rs. req_url r = CT_API_BASE
              \<and> map_of (req_params r) ''pageSize'' = Some (PInt 100))"
proof -
  have "snd (count_trials reg c p s l sent)
        = snd (count_loop reg (make_params 100 (base_query_parts c p s l)) 0 0 PNone sent)"
    by (simp add: count_trials_def split: prod.splits del: count_loop.simps)
  moreover have "map_of (make_params 100 (base_query_parts c p s l)) ''pageSize''
        = Some (PInt 100)"
    by (simp add: make_params_def)
  ultimately show ?thesis
    using count_loop_requests [of reg "make_params 100 (base_query_parts c p s l)" 0 0 PNone sent]
    by (simp add: max_pages_def del: count_loop.simps)
qed

lemma count_trials_one_page:
  assumes "read_page (reg (sent @ [page_request c p s l PNone])) = Inr (n1, t1)"
    and "\<not> truthy t1"
  shows "count_trials reg c p s l sent = (Inr (exact_count n1), sent @ [page_request c p s l PNone])"
  using assms
  by (simp add: count_trials_def max_pages_def requests_get_def page_request_def catch_def
        exact_count_def)

lemma count_trials_two_pages:
  assumes "read_page (reg (sent @ [page_request c p s l PNone])) = Inr (n1, t1)"
    and "truthy t1"
    and "read_page (reg (sent @ [page_request c p s l PNone, page_request c p s l t1]))
         = Inr (n2, t2)"
    and "\<not> truthy t2"
  shows "count_trials reg c p s l sent
         = (Inr (exact_count (n1 + n2)),
            sent @ [page_request c p s l PNone, page_request c p s l t1])"
  using assms
  by (simp add: count_trials_def max_pages_def requests_get_def page_request_def catch_def
        exact_count_def page_params_None page_params_again)

lemma count_trials_three_pages:
  assumes "read_page (reg (sent @ [page_request c p s l PNone])) = Inr (n1, t1)"
    and "truthy t1"
    and "read_page (reg (sent @ [page_request c p s l PNone, page_request c p s l t1]))
         = Inr (n2, t2)"
    and "truthy t2"
    and "read_page (reg (sent @ [page_request c p s l PNone, page_request c p s l t1,
                                 page_request c p s l t2])) = Inr (n3, t3)"
  shows "count_trials reg c p s l sent
         = (Inr (if truthy t3 then at_least_count (n1 + n2 + n3) else exact_count (n1 + n2 + n3)),
            sent @ [page_request c p s l PNone, page_request c p s l t1,
                    page_request c p s l t2])"
  using assms
  by (simp add: count_trials_def max_pages_def requests_get_def page_request_def catch_def
        exact_count_def at_least_count_def page_params_None page_params_again)

text \<open>
  Claim C3. \<^verbatim>\<open>count_trials\<close> sends at most three requests, each for a page of 100.
  When the first, second or third page comes without a continuation token, the result
  is the sum of the page sizes with \<^verbatim>\<open>is_exact\<close> true. When the third page still
  names a next page, the result is the sum of the three page sizes with \<^verbatim>\<open>is_exact\<close>
  false and the note \<^verbatim>\<open>At least N trials\<close>. When no page of the registry holds more
  than 100 studies, a returned count is at most 300.
\<close>

theorem count_trials_pages:
  "(\<exists>rs. snd (count_trials reg c p s l sent) = sent @ rs \<and> length rs \<le> 3
        \<and> (\<forall>r \<in> set rs. req_url r = CT_API_BASE
              \<and> map_of (req_params r) ''pageSize'' = Some (PInt 100)))
   \<and> (read_page (reg (sent @ [page_request c p s l PNone])) = Inr (n1, t1) \<and> \<not> truthy t1
      \<longrightarrow> count_trials reg c p s l sent
          = (Inr (exact_count n1), sent @ [page_request c p s l PNone]))
   \<and> (read_page (reg (sent @ [page_request c p s l PNone])) = Inr (n1, t1) \<and> truthy t1
      \<and> read_page (reg (sent @ [page_request c p s l PNone, page_request c p s l t1]))
        = Inr (n2, t2) \<and> \<not> truthy t2
      \<longrightarrow> count_trials reg c p s l sent
          = (Inr (exact_count (n1 + n2)),
             sent @ [page_request c p s l PNone, page_request c p s l t1]))
   \<and> (read_page (reg (sent @ [page_request c p s l PNone])) = Inr (n1, t1) \<and> truthy t1
      \<and> read_page (reg (sent @ [page_request c p s l PNone, page_request c p s l t1]))
        = Inr (n2, t2) \<and> truthy t2
      \<and> read_page (reg (sent @ [page_request c p s l PNone, page_request c p s l t1,
                                page_request c p s l t2])) = Inr (n3, t3)
      \<longrightarrow> count_trials reg c p s l sent
          = (Inr (if truthy t3 then at_least_count (n1 + n2 + n3)
                  else exact_count (n1 + n2 + n3)),
             sent @ [page_request c p s l PNone, page_request c p s l t1,
                     page_request c p s l t2]))
   \<and> ((\<forall>h k t. read_page (reg h) = Inr (k, t) \<longrightarrow> k \<le> 100)
      \<and> fst (count_trials reg c p s l sent) = Inr v \<and> count_of v = Some n
      \<longrightarrow> n \<le> 300)"
proof (intro conjI impI)
  show "\<exists>rs. snd (count_trials reg c p s l sent) = sent @ rs \<and> length rs \<le> 3
        \<and> (\<forall>r \<in> set rs. req_url r = CT_API_BASE
              \<and> map_of (req_params r) ''pageSize'' = Some (PInt 100))"
    by (rule count_trials_requests)
next
  assume "read_page (reg (sent @ [page_request c p s l PNone])) = Inr (n1, t1) \<and> \<not> truthy t1"
  then show "count_trials reg c p s l sent
          = (Inr (exact_count n1), sent @ [page_request c p s l PNone])"
    using count_trials_one_page by blast
next
  assume "read_page (reg (sent @ [page_request c p s l PNone])) = Inr (n1, t1) \<and> truthy t1
      \<and> read_page (reg (sent @ [page_request c p s l PNone, page_request c p s l t1]))
        = Inr (n2, t2) \<and> \<not> truthy t2"
  then show "count_trials reg c p s l sent
          = (Inr (exact_count (n1 + n2)),
             sent @ [page_request c p s l PNone, page_request c p s l t1])"
    using count_trials_two_pages by blast
next
  assume "read_page (reg (sent @ [page_request c p s l PNone])) = Inr (n1, t1) \<and> truthy t1
      \<and> read_page (reg (sent @ [page_request c p s l PNone, page_request c p s l t1]))
        = Inr (n2, t2) \<and> truthy t2
      \<and> read_page (reg (sent @ [page_request c p s l PNone, page_request c p s l t1,
                                page_request c p s l t2])) = Inr (n3, t3)"
  then show "count_trials reg c p s l sent
          = (Inr (if truthy t3 then at_least_count (n1 + n2 + n3)
                  else exact_count (n1 + n2 + n3)),
             sent @ [page_request c p s l PNone, page_request c p s l t1,
                     page_request c p s l t2])"
    using count_trials_three_pages by blast
next
  assume "(\<forall>h k t. read_page (reg h) = Inr (k, t) \<longrightarrow> k \<le> 100)
      \<and> fst (count_trials reg c p s l sent) = Inr v \<and> count_of v = Some n"
  then show "n \<le> 300"
    using count_trials_bound by blast
qed

lemma read_page_two_studies: "read_page (two_studies h) = Inr (2, PNone)"
  by (simp add: read_page_def two_studies_def checked_json_ok bnd_def dict_get_def key_eq_def
        py_len_def)

lemma read_page_endless: "read_page (endless h) = Inr (100, PStr ''next'')"
  by (simp add: read_page_def endless_def checked_json_ok bnd_def dict_get_def key_eq_def
        py_len_def)

theorem count_trials_pages_witness:
  "count_trials two_studies (Some ''asthma'') None None None []
     = (Inr (PDict [(PStr ''count'', PInt 2), (PStr ''is_exact'', PBool True)]),
        [page_request (Some ''asthma'') None None None PNone])
   \<and> count_trials endless (Some ''asthma'') None None None []
     = (Inr (PDict [(PStr ''count'', PInt 300), (PStr ''is_exact'', PBool False),
                    (PStr ''note'', PStr ''At least 300 trials'')]),
        [page_request (Some ''asthma'') None None None PNone,
         page_request (Some ''asthma'') None None None (PStr ''next''),
         page_request (Some ''asthma'') None None None (PStr ''next'')])
   \<and> page_request (Some ''asthma'') None None None (PStr ''next'')
     = \<lparr>req_url = CT_API_BASE,
        req_params = [(''format'', PStr ''json''), (''pageSize'', PInt 100),
                      (''query.term'', PStr ''AREA[Condition]asthma''),
                      (''pageToken'', PStr ''next'')]\<rparr>
   \<and> (\<forall>h. read_page (endless h) = Inr (100, PStr ''next''))
   \<and> count_of (at_least_count 300) = Some 300 \<and> (300 :: int) \<le> 300"
proof -
  have small: "\<forall>h k t. read_page (endless h) = Inr (k, t) \<longrightarrow> k \<le> 100"
    by (simp add: read_page_endless)
  have rq: "page_request (Some ''asthma'') None None None (PStr ''next'')
     = \<lparr>req_url = CT_API_BASE,
        req_params = [(''format'', PStr ''json''), (''pageSize'', PInt 100),
                      (''query.term'', PStr ''AREA[Condition]asthma''),
                      (''pageToken'', PStr ''next'')]\<rparr>"
    by (simp add: page_request_def page_params_def make_params_def base_query_parts_def
          area_def given_def)
  have n: "str_int 300 = ''300''"
    by (simp add: str_int_def)
  have one: "count_trials two_studies (Some ''asthma'') None None None []
     = (Inr (exact_count 2), [page_request (Some ''asthma'') None None None PNone])"
    using count_trials_pages [where reg = two_studies and c = "Some ''asthma''" and p = None
      and s = None and l = None and sent = "[]" and ?n1.0 = 2 and ?t1.0 = PNone,
      THEN conjunct2, THEN conjunct1] read_page_two_studies
    by simp
  have three: "count_trials endless (Some ''asthma'') None None None []
     = (Inr (at_least_count 300),
        [page_request (Some ''asthma'') None None None PNone,
         page_request (Some ''asthma'') None None None (PStr ''next''),
         page_request (Some ''asthma'') None None None (PStr ''next'')])"
    using count_trials_pages [where reg = endless and c = "Some ''asthma''" and p = None
      and s = None and l = None and sent = "[]" and ?n1.0 = 100 and ?t1.0 = "PStr ''next''"
      and ?n2.0 = 100 and ?t2.0 = "PStr ''next''" and ?n3.0 = 100 and ?t3.0 = "PStr ''next''",
      THEN conjunct2, THEN conjunct2, THEN conjunct2, THEN conjunct1] read_page_endless
    by simp
  have c: "count_of (at_least_count 300) = Some 300"
    by (simp add: count_of_def at_least_count_def key_eq_def)
  have "(300 :: int) \<le> 300"
    using count_trials_pages [where reg = endless and c = "Some ''asthma''" and p = None
      and s = None and l = None and sent = "[]" and v = "at_least_count 300" and n = 300,
      THEN conjunct2, THEN conjunct2, THEN conjunct2, THEN conjunct2] small three c
    by simp
  with one three rq c n show ?thesis
    by (simp add: exact_count_def at_least_count_def read_page_endless)
qed

subsection \<open>The cap on extracted sites\<close>

lemma site_record_dict: "is_dict loc \<Longrightarrow> \<exists>site. site_record nct_id loc = Inr site"
  by (cases loc) (simp_all add: is_dict_def site_record_def dict_get_def bnd_def)

lemma sites_of_locations_take:
  assumes "list_all is_dict locs" and "length sites < 50"
  shows "sites_of_locations nct_id locs sites
         = Inr (take 50 (sites @ concat (map (\<lambda>loc. case site_record nct_id loc of
                                                 Inl e \<Rightarrow> [] | Inr site \<Rightarrow> [site]) locs)))"
  using assms
proof (induction locs arbitrary: sites)
  case Nil
  then show ?case by simp
next
  case (Cons loc locs)
  from Cons.prems obtain site where site: "site_record nct_id loc = Inr site"
    using site_record_dict by auto
  show ?case
  proof (cases "length (sites @ [site]) \<ge> 50")
    case True
    with Cons.prems have "length (sites @ [site]) = 50" by simp
    with site True show ?thesis by simp
  next
    case False
    with Cons.prems Cons.IH [of "sites @ [site]"] site show ?thesis by simp
  qed
qed

lemma sites_of_trials_take:
  assumes "list_all well_formed_trial trials" and "length sites < 50"
  shows "sites_of_trials trials sites = Inr (take 50 (sites @ flat_sites trials))"
  using assms
proof (induction trials arbitrary: sites)
  case Nil
  then show ?case by (simp add: flat_sites_def)
next
  case (Cons trial trials)
  from Cons.prems obtain nct_id locs where
    tl: "trial_locations trial = Inr (nct_id, locs)" and locs: "list_all is_dict locs"
    by (auto simp: well_formed_trial_def split: sum.splits)
  let ?here = "sites @ trial_sites trial"
  from tl locs Cons.prems(2)
  have inner: "sites_of_locations nct_id locs sites = Inr (take 50 ?here)"
    by (simp add: sites_of_locations_take trial_sites_def)
  define got where "got = take 50 ?here"
  from inner have inner': "sites_of_locations nct_id locs sites = Inr got"
    by (simp only: got_def)
  have flat: "sites @ flat_sites (trial # trials) = ?here @ flat_sites trials"
    by (simp add: flat_sites_def)
  show ?case
  proof (cases "length got \<ge> 50")
    case True
    then have "length ?here \<ge> 50" by (simp add: got_def)
    then have "take 50 (?here @ flat_sites trials) = got" by (simp add: got_def)
    moreover from tl inner' True have "sites_of_trials (trial # trials) sites = Inr got"
      by simp
    ultimately show ?thesis by (simp only: flat)
  next
    case False
    then have short: "length ?here < 50" by (simp add: got_def)
    then have "got = ?here" by (simp add: got_def)
    with tl inner' False
    have "sites_of_trials (trial # trials) sites = sites_of_trials trials ?here"
      by simp
    also from Cons.prems(1) short have "\<dots> = Inr (take 50 (?here @ flat_sites trials))"
      by (intro Cons.IH) simp_all
    finally show ?thesis by (simp only: flat)
  qed
qed

lemma trial_sites_length:
  "well_formed_trial trial
   \<Longrightarrow> length (trial_sites trial)
       = (case trial_locations trial of Inl e \<Rightarrow> 0 | Inr (nct_id, locs) \<Rightarrow> length locs)"
proof -
  have "list_all is_dict locs
        \<Longrightarrow> length (concat (map (\<lambda>loc. case site_record nct_id loc of
                                         Inl e \<Rightarrow> [] | Inr site \<Rightarrow> [site]) locs)) = length locs"
    for nct_id locs
  proof (induction locs)
    case Nil
    then show ?case by simp
  next
    case (Cons loc locs)
    then obtain site where "site_record nct_id loc = Inr site"
      using site_record_dict by auto
    with Cons show ?case by simp
  qed
  then show "well_formed_trial trial \<Longrightarrow> ?thesis"
    by (auto simp: well_formed_trial_def trial_sites_def split: sum.splits)
qed

lemma flat_sites_length:
  "list_all well_formed_trial trials \<Longrightarrow> length (flat_sites trials) = location_count trials"
  by (induction trials) (simp_all add: flat_sites_def location_count_def trial_sites_length)

text \<open>
  Claim C6. For every filter and every response whose trials are well formed and have
  more than 50 locations in all, \<^verbatim>\<open>extract_sites\<close> returns exactly 50 Site Records:
  the first 50 of the records of all locations, taken trial by trial and, within a trial,
  location by location. The trial that crosses the threshold is cut and what follows is
  left out.
\<close>

theorem extract_sites_cap:
  assumes "checked_json (reg (sent @ [sites_request c p s l n])) = Inr data"
    and "dict_get data ''studies'' (PList []) = Inr studies"
    and "py_iter studies = Inr trials"
    and "list_all well_formed_trial trials"
    and "location_count trials > 50"
  shows "fst (extract_sites reg c p s l n sent) = Inr (PList (take 50 (flat_sites trials)))
         \<and> length (take 50 (flat_sites trials)) = 50"
proof -
  from assms(4) have "sites_of_trials trials [] = Inr (take 50 (flat_sites trials))"
    using sites_of_trials_take [of trials "[]"] by simp
  with assms(1-3)
  have "fst (extract_sites reg c p s l n sent) = Inr (PList (take 50 (flat_sites trials)))"
    by (simp add: extract_sites_def requests_get_def Let_def sites_request_def bnd_def catch_def)
  moreover from assms(4,5) have "length (take 50 (flat_sites trials)) = 50"
    by (simp add: flat_sites_length)
  ultimately show ?thesis by blast
qed

lemma trial_locations_with:
  "trial_locations (trial_with_locations nct k) = Inr (PStr nct, replicate k (PDict []))"
  by (simp add: trial_locations_def trial_with_locations_def dict_get_def key_eq_def bnd_def
        py_iter_def)

lemma site_record_blank: "site_record (PStr nct) (PDict []) = Inr (blank_site nct)"
  by (simp add: site_record_def dict_get_def bnd_def blank_site_def)

lemma well_formed_trial_with: "well_formed_trial (trial_with_locations nct k)"
  by (simp add: well_formed_trial_def trial_locations_with list_all_iff is_dict_def)

lemma concat_replicate_single: "concat (map (\<lambda>x. [y]) (replicate k x)) = replicate k y"
  by (induction k) simp_all

lemma trial_sites_with:
  "trial_sites (trial_with_locations nct k) = replicate k (blank_site nct)"
  by (simp add: trial_sites_def trial_locations_with site_record_blank concat_replicate_single)

theorem extract_sites_cap_witness:
  "fst (extract_sites sixty_locations None None None None 10 [])
     = Inr (PList (replicate 30 (blank_site ''NCT01'') @ replicate 20 (blank_site ''NCT02'')))
   \<and> length (replicate 30 (blank_site ''NCT01'') @ replicate 20 (blank_site ''NCT02'')) = 50
   \<and> location_count [trial_with_locations ''NCT01'' 30, trial_with_locations ''NCT02'' 30] = 60"
proof -
  let ?trials = "[trial_with_locations ''NCT01'' 30, trial_with_locations ''NCT02'' 30]"
  let ?data = "PDict [(PStr ''studies'', PList ?trials)]"
  have 1: "checked_json (sixty_locations ([] @ [sites_request None None None None 10])) = Inr ?data"
    by (simp add: sixty_locations_def checked_json_ok)
  have 2: "dict_get ?data ''studies'' (PList []) = Inr (PList ?trials)"
    by (simp add: dict_get_def key_eq_def)
  have 3: "py_iter (PList ?trials) = Inr ?trials"
    by (simp add: py_iter_def)
  have 4: "list_all well_formed_trial ?trials"
    by (simp add: well_formed_trial_with)
  have 5: "location_count ?trials = 60"
    by (simp add: location_count_def trial_locations_with)
  then have 6: "location_count ?trials > 50" by simp
  have 7: "take 50 (flat_sites ?trials)
           = replicate 30 (blank_site ''NCT01'') @ replicate 20 (blank_site ''NCT02'')"
    by (simp add: flat_sites_def trial_sites_with)
  from extract_sites_cap [where reg = sixty_locations and sent = "[]" and c = None
      and p = None and s = None and l = None and n = 10, OF 1 2 3 4 6] 5 7
  show ?thesis by simp
qed

subsection \<open>Compact and full records\<close>

lemma dict_get_value_at: "is_dict x \<Longrightarrow> dict_get x k d = Inr (value_at x k d)"
  by (cases x) (simp_all add: is_dict_def dict_get_def value_at_def)

lemma get_in_value_at:
  "is_dict x \<Longrightarrow> is_dict (sub x k) \<Longrightarrow> get_in x k k' = Inr (value_at (sub x k) k' (PStr []))"
  by (simp add: get_in_def bnd_def dict_get_value_at sub_def)

lemma parse_identification_ok:
  assumes "is_dict protocol" "is_dict (sub protocol ''identificationModule'')"
    "is_dict (sub (sub protocol ''identificationModule'') ''organization'')"
  shows "parse_identification protocol
         = Inr (value_at (sub protocol ''identificationModule'') ''nctId'' (PStr []),
                value_at (sub protocol ''identificationModule'') ''briefTitle'' (PStr []),
                value_at (sub protocol ''identificationModule'') ''officialTitle'' (PStr []),
                value_at (sub protocol ''identificationModule'') ''acronym'' (PStr []),
                value_at (sub (sub protocol ''identificationModule'') ''organization'')
                  ''fullName'' (PStr []))"
  using assms by (simp add: parse_identification_def bnd_def dict_get_value_at sub_def)

lemma parse_status_ok:
  assumes "is_dict protocol" "is_dict (sub protocol ''statusModule'')"
    "is_dict (sub (sub protocol ''statusModule'') ''startDateStruct'')"
    "is_dict (sub (sub protocol ''statusModule'') ''completionDateStruct'')"
    "is_dict (sub (sub protocol ''statusModule'') ''primaryCompletionDateStruct'')"
    "is_dict (sub (sub protocol ''statusModule'') ''studyFirstPostDateStruct'')"
    "is_dict (sub (sub protocol ''statusModule'') ''lastUpdatePostDateStruct'')"
  shows "\<exists>overall_status dates. parse_status protocol = Inr (overall_status, dates)"
  using assms
  by (simp add: parse_status_def bnd_def dict_get_value_at get_in_value_at sub_def [symmetric])

lemma parse_sponsor_ok:
  assumes "is_dict protocol" "is_dict (sub protocol ''sponsorCollaboratorsModule'')"
    "is_dict (sub (sub protocol ''sponsorCollaboratorsModule'') ''leadSponsor'')"
    "is_dict (sub (sub protocol ''sponsorCollaboratorsModule'') ''responsibleParty'')"
  shows "parse_sponsor protocol
         = Inr (value_at (sub (sub protocol ''sponsorCollaboratorsModule'') ''leadSponsor'')
                  ''name'' (PStr []),
                value_at (sub (sub protocol ''sponsorCollaboratorsModule'') ''leadSponsor'')
                  ''class'' (PStr []),
                value_at (sub (sub protocol ''sponsorCollaboratorsModule'') ''responsibleParty'')
                  ''investigatorFullName'' (PStr []),
                value_at (sub (sub protocol ''sponsorCollaboratorsModule'') ''responsibleParty'')
                  ''investigatorAffiliation'' (PStr []))"
  using assms by (simp add: parse_sponsor_def bnd_def dict_get_value_at sub_def)

lemma parse_description_ok:
  assumes "is_dict protocol" "is_dict (sub protocol ''descriptionModule'')"
  shows "parse_description protocol
         = Inr (value_at (sub protocol ''descriptionModule'') ''briefSummary'' (PStr []),
                value_at (sub protocol ''descriptionModule'') ''detailedDescription'' (PStr []))"
  using assms by (simp add: parse_description_def bnd_def dict_get_value_at sub_def)

lemma parse_conditions_ok:
  assumes "is_dict protocol" "is_dict (sub protocol ''conditionsModule'')"
  shows "\<exists>conditions. parse_conditions protocol = Inr conditions"
  using assms by (simp add: parse_conditions_def bnd_def dict_get_value_at sub_def)

lemma parse_design_ok:
  assumes "is_dict protocol" "is_dict (sub protocol ''designModule'')"
    "is_dict (sub (sub protocol ''designModule'') ''enrollmentInfo'')"
    "is_dict (sub (sub protocol ''designModule'') ''designInfo'')"
  shows "\<exists>study_type phases enrollment_count enrollment_type.
           parse_design protocol
           = Inr (study_type, phases, enrollment_count, enrollment_type,
                  value_at (sub (sub protocol ''designModule'') ''designInfo'') ''allocation'' (PStr []),
                  value_at (sub (sub protocol ''designModule'') ''designInfo'')
                    ''interventionModel'' (PStr []),
                  value_at (sub (sub protocol ''designModule'') ''designInfo'')
                    ''primaryPurpose'' (PStr []))"
  using assms by (simp add: parse_design_def bnd_def dict_get_value_at sub_def)

lemma parse_intervention_ok:
  assumes "is_dict interv" "is_str (value_at interv ''description'' (PStr []))"
  shows "parse_intervention full_details interv = Inr (intervention_record full_details interv)"
  using assms
  by (cases "value_at interv ''description'' (PStr [])")
     (simp_all add: parse_intervention_def bnd_def dict_get_value_at intervention_record_def
        py_slice_to_def is_str_def text_of_def)

lemma map_exn_map: "list_all (\<lambda>x. f x = Inr (g x)) xs \<Longrightarrow> map_exn f xs = Inr (map g xs)"
  by (induction xs) simp_all

lemma is_list_of_items: "is_list_of ok x \<Longrightarrow> x = PList (items_of x) \<and> list_all ok (items_of x)"
  by (cases x) (simp_all add: is_list_of_def items_of_def)

lemma parse_interventions_ok:
  assumes "is_dict protocol" "is_dict (sub protocol ''armsInterventionsModule'')"
    "is_list_of (\<lambda>interv. is_dict interv \<and> is_str (value_at interv ''description'' (PStr [])))
       (value_at (sub protocol ''armsInterventionsModule'') ''interventions'' (PList []))"
  shows "parse_interventions full_details protocol
         = Inr (PList (map (intervention_record full_details)
                  (items_of (value_at (sub protocol ''armsInterventionsModule'')
                               ''interventions'' (PList [])))))"
proof -
  let ?raw = "value_at (sub protocol ''armsInterventionsModule'') ''interventions'' (PList [])"
  from is_list_of_items [OF assms(3)]
  have raw: "?raw = PList (items_of ?raw)"
    and each: "list_all (\<lambda>interv. is_dict interv \<and> is_str (value_at interv ''description'' (PStr [])))
                 (items_of ?raw)"
    by simp_all
  from each have "list_all (\<lambda>interv. parse_intervention full_details interv
                               = Inr (intervention_record full_details interv)) (items_of ?raw)"
    by (simp add: list_all_iff parse_intervention_ok)
  then have m: "map_exn (parse_intervention full_details) (items_of ?raw)
             = Inr (map (intervention_record full_details) (items_of ?raw))"
    by (rule map_exn_map)
  have "py_iter ?raw = Inr (items_of ?raw)"
    by (subst raw) (simp add: py_iter_def)
  with assms(1,2) m show ?thesis
    by (simp add: parse_interventions_def bnd_def dict_get_value_at sub_def)
qed

lemma parse_eligibility_ok:
  assumes "is_dict protocol" "is_dict (sub protocol ''eligibilityModule'')"
  shows "\<exists>healthy_volunteers sex min_age max_age std_ages.
           parse_eligibility protocol
           = Inr (value_at (sub protocol ''eligibilityModule'') ''eligibilityCriteria'' (PStr []),
                  healthy_volunteers, sex, min_age, max_age, std_ages)"
  using assms by (simp add: parse_eligibility_def bnd_def dict_get_value_at sub_def)

lemma parse_location_ok: "is_dict loc \<Longrightarrow> \<exists>r. parse_location loc = Inr r"
  by (simp add: parse_location_def bnd_def dict_get_value_at)

lemma map_exn_ok: "list_all (\<lambda>x. \<exists>y. f x = Inr y) xs \<Longrightarrow> \<exists>ys. map_exn f xs = Inr ys"
  by (induction xs) auto

lemma parse_locations_ok:
  assumes "is_dict protocol" "is_dict (sub protocol ''contactsLocationsModule'')"
    "is_list_of is_dict (value_at (sub protocol ''contactsLocationsModule'') ''locations'' (PList []))"
  shows "\<exists>locations. parse_locations protocol = Inr locations"
proof -
  let ?raw = "value_at (sub protocol ''contactsLocationsModule'') ''locations'' (PList [])"
  from is_list_of_items [OF assms(3)]
  have raw: "?raw = PList (items_of ?raw)" and each: "list_all is_dict (items_of ?raw)"
    by simp_all
  from each have "list_all is_dict (take 10 (items_of ?raw))"
    by (auto simp: list_all_iff dest: in_set_takeD)
  then have "list_all (\<lambda>loc. \<exists>r. parse_location loc = Inr r) (take 10 (items_of ?raw))"
    by (simp add: list_all_iff parse_location_ok)
  then obtain ls where "map_exn parse_location (take 10 (items_of ?raw)) = Inr ls"
    using map_exn_ok by blast
  moreover have "py_slice_to 10 ?raw = Inr (PList (take 10 (items_of ?raw)))"
    by (subst raw) (simp add: py_slice_to_def)
  ultimately show ?thesis using assms(1,2)
    by (simp add: parse_locations_def bnd_def dict_get_value_at sub_def py_iter_def)
qed

lemma parse_primary_outcome_ok:
  "is_dict outcome \<Longrightarrow> parse_primary_outcome outcome = Inr (primary_outcome_record outcome)"
  by (simp add: parse_primary_outcome_def bnd_def dict_get_value_at primary_outcome_record_def)

lemma parse_secondary_outcome_ok:
  "is_dict outcome \<Longrightarrow> parse_secondary_outcome outcome = Inr (secondary_outcome_record outcome)"
  by (simp add: parse_secondary_outcome_def bnd_def dict_get_value_at secondary_outcome_record_def)

lemma parse_outcomes_ok:
  assumes "is_dict protocol" "is_dict (sub protocol ''outcomesModule'')"
    "is_list_of is_dict (value_at (sub protocol ''outcomesModule'') ''primaryOutcomes'' (PList []))"
    "is_list_of is_dict (value_at (sub protocol ''outcomesModule'') ''secondaryOutcomes'' (PList []))"
  shows "parse_outcomes full_details protocol
         = Inr (if full_details then
                  (PList (map primary_outcome_record
                     (items_of (value_at (sub protocol ''outcomesModule'') ''primaryOutcomes''
                                  (PList [])))),
                   PList (map secondary_outcome_record
                     (items_of (value_at (sub protocol ''outcomesModule'') ''secondaryOutcomes''
                                  (PList [])))))
                else (PList [], PList []))"
proof -
  let ?p = "value_at (sub protocol ''outcomesModule'') ''primaryOutcomes'' (PList [])"
  let ?s = "value_at (sub protocol ''outcomesModule'') ''secondaryOutcomes'' (PList [])"
  from is_list_of_items [OF assms(3)] is_list_of_items [OF assms(4)]
  have p: "?p = PList (items_of ?p)" and pe: "list_all is_dict (items_of ?p)"
    and s: "?s = PList (items_of ?s)" and se: "list_all is_dict (items_of ?s)"
    by simp_all
  from pe have "list_all (\<lambda>x. parse_primary_outcome x = Inr (primary_outcome_record x))
                  (items_of ?p)"
    by (simp add: list_all_iff parse_primary_outcome_ok)
  then have mp: "map_exn parse_primary_outcome (items_of ?p)
                 = Inr (map primary_outcome_record (items_of ?p))"
    by (rule map_exn_map)
  from se have "list_all (\<lambda>x. parse_secondary_outcome x = Inr (secondary_outcome_record x))
                  (items_of ?s)"
    by (simp add: list_all_iff parse_secondary_outcome_ok)
  then have ms: "map_exn parse_secondary_outcome (items_of ?s)
                 = Inr (map secondary_outcome_record (items_of ?s))"
    by (rule map_exn_map)
  have it_p: "py_iter ?p = Inr (items_of ?p)" by (subst p) (simp add: py_iter_def)
  have it_s: "py_iter ?s = Inr (items_of ?s)" by (subst s) (simp add: py_iter_def)
  from assms(1,2) mp ms it_p it_s show ?thesis
    by (simp add: parse_outcomes_def bnd_def dict_get_value_at sub_def)
qed

lemma value_at_PDict:
  "value_at (PDict kvs) k d = (case lookup kvs (PStr k) of Some v \<Rightarrow> v | None \<Rightarrow> d)"
  by (simp add: value_at_def)

lemma parse_study_ok:
  assumes "well_formed_study study"
  shows "\<exists>nct_id title acronym overall_status phases study_type conditions sponsor_name
            sponsor_class enrollment dates sex min_age max_age std_ages healthy_volunteers
            locations.
     parse_study study full_details
     = Inr (PDict
        ([(PStr ''nctId'', nct_id),
          (PStr ''title'', title),
          (PStr ''acronym'', acronym),
          (PStr ''status'', overall_status),
          (PStr ''phases'', phases),
          (PStr ''studyType'', study_type),
          (PStr ''conditions'', conditions),
          (PStr ''interventions'',
             PList (map (intervention_record full_details) (raw_interventions study))),
          (PStr ''sponsor'', sponsor_name),
          (PStr ''sponsorClass'', sponsor_class),
          (PStr ''enrollment'', enrollment),
          (PStr ''dates'', dates),
          (PStr ''eligibility'',
             PDict [(PStr ''criteria'',
                     if full_details then raw_criteria study
                     else PStr (take 800 (text_of (raw_criteria study)))),
                    (PStr ''sex'', sex),
                    (PStr ''minAge'', min_age),
                    (PStr ''maxAge'', max_age),
                    (PStr ''stdAges'', std_ages),
                    (PStr ''healthyVolunteers'', healthy_volunteers)]),
          (PStr ''locations'', locations)]
         @ (if full_details then
              [(PStr ''officialTitle'',
                  value_at (sub (sub study ''protocolSection'') ''identificationModule'')
                    ''officialTitle'' (PStr [])),
               (PStr ''organization'',
                  value_at (sub (sub (sub study ''protocolSection'') ''identificationModule'')
                           ''organization'') ''fullName'' (PStr [])),
               (PStr ''investigator'',
                  value_at (sub (sub (sub study ''protocolSection'') ''sponsorCollaboratorsModule'')
                           ''responsibleParty'') ''investigatorFullName'' (PStr [])),
               (PStr ''investigatorAffiliation'',
                  value_at (sub (sub (sub study ''protocolSection'') ''sponsorCollaboratorsModule'')
                           ''responsibleParty'') ''investigatorAffiliation'' (PStr [])),
               (PStr ''briefSummary'',
                  value_at (sub (sub study ''protocolSection'') ''descriptionModule'')
                    ''briefSummary'' (PStr [])),
               (PStr ''detailedDescription'',
                  value_at (sub (sub study ''protocolSection'') ''descriptionModule'')
                    ''detailedDescription'' (PStr [])),
               (PStr ''design'',
                  PDict [(PStr ''allocation'',
                          value_at (sub (sub (sub study ''protocolSection'') ''designModule'')
                                   ''designInfo'') ''allocation'' (PStr [])),
                         (PStr ''interventionModel'',
                          value_at (sub (sub (sub study ''protocolSection'') ''designModule'')
                                   ''designInfo'') ''interventionModel'' (PStr [])),
                         (PStr ''primaryPurpose'',
                          value_at (sub (sub (sub study ''protocolSection'') ''designModule'')
                                   ''designInfo'') ''primaryPurpose'' (PStr []))]),
               (PStr ''primaryOutcomes'',
                  PList (map primary_outcome_record
                    (items_of (value_at (sub (sub study ''protocolSection'') ''outcomesModule'')
                                 ''primaryOutcomes'' (PList []))))),
               (PStr ''secondaryOutcomes'',
                  PList (map secondary_outcome_record
                    (items_of (value_at (sub (sub study ''protocolSection'') ''outcomesModule'')
                                 ''secondaryOutcomes'' (PList [])))))]
            else [])))"
proof -
  let ?protocol = "sub study ''protocolSection''"
  note wf = assms [unfolded well_formed_study_def Let_def]
  from wf have study: "is_dict study" and protocol: "is_dict ?protocol" by simp_all
  from wf have crit: "is_str (raw_criteria study)" by (simp add: raw_criteria_def)
  then have slice: "py_slice_to 800 (raw_criteria study)
                    = Inr (PStr (take 800 (text_of (raw_criteria study))))"
    by (cases "raw_criteria study") (simp_all add: is_str_def py_slice_to_def text_of_def)
  from wf obtain overall_status dates where
    st: "parse_status ?protocol = Inr (overall_status, dates)"
    using parse_status_ok [of ?protocol] by auto
  from wf obtain conditions where co: "parse_conditions ?protocol = Inr conditions"
    using parse_conditions_ok [of ?protocol] by auto
  from wf obtain study_type phases enrollment_count enrollment_type where
    de: "parse_design ?protocol
           = Inr (study_type, phases, enrollment_count, enrollment_type,
                  value_at (sub (sub ?protocol ''designModule'') ''designInfo'') ''allocation'' (PStr []),
                  value_at (sub (sub ?protocol ''designModule'') ''designInfo'')
                    ''interventionModel'' (PStr []),
                  value_at (sub (sub ?protocol ''designModule'') ''designInfo'')
                    ''primaryPurpose'' (PStr []))"
    using parse_design_ok [of ?protocol] by auto
  from wf obtain healthy_volunteers sex min_age max_age std_ages where
    el: "parse_eligibility ?protocol
           = Inr (raw_criteria study, healthy_volunteers, sex, min_age, max_age, std_ages)"
    using parse_eligibility_ok [of ?protocol] unfolding raw_criteria_def by auto
  from wf obtain locations where lo: "parse_locations ?protocol = Inr locations"
    using parse_locations_ok [of ?protocol] by auto
  from wf have idn: "parse_identification ?protocol = Inr
       (value_at (sub ?protocol ''identificationModule'') ''nctId'' (PStr []),
        value_at (sub ?protocol ''identificationModule'') ''briefTitle'' (PStr []),
        value_at (sub ?protocol ''identificationModule'') ''officialTitle'' (PStr []),
        value_at (sub ?protocol ''identificationModule'') ''acronym'' (PStr []),
        value_at (sub (sub ?protocol ''identificationModule'') ''organization'')
          ''fullName'' (PStr []))"
    by (intro parse_identification_ok) simp_all
  from wf have sp: "parse_sponsor ?protocol
         = Inr (value_at (sub (sub ?protocol ''sponsorCollaboratorsModule'') ''leadSponsor'')
                  ''name'' (PStr []),
                value_at (sub (sub ?protocol ''sponsorCollaboratorsModule'') ''leadSponsor'')
                  ''class'' (PStr []),
                value_at (sub (sub ?protocol ''sponsorCollaboratorsModule'') ''responsibleParty'')
                  ''investigatorFullName'' (PStr []),
                value_at (sub (sub ?protocol ''sponsorCollaboratorsModule'') ''responsibleParty'')
                  ''investigatorAffiliation'' (PStr []))"
    by (intro parse_sponsor_ok) simp_all
  from wf have ds: "parse_description ?protocol
         = Inr (value_at (sub ?protocol ''descriptionModule'') ''briefSummary'' (PStr []),
                value_at (sub ?protocol ''descriptionModule'') ''detailedDescription'' (PStr []))"
    by (intro parse_description_ok) simp_all
  from wf have iv: "parse_interventions full_details ?protocol
         = Inr (PList (map (intervention_record full_details) (raw_interventions study)))"
    unfolding raw_interventions_def by (intro parse_interventions_ok) simp_all
  from wf have ou: "parse_outcomes full_details ?protocol
         = Inr (if full_details then
                  (PList (map primary_outcome_record
                     (items_of (value_at (sub ?protocol ''outcomesModule'') ''primaryOutcomes''
                                  (PList [])))),
                   PList (map secondary_outcome_record
                     (items_of (value_at (sub ?protocol ''outcomesModule'') ''secondaryOutcomes''
                                  (PList [])))))
                else (PList [], PList []))"
    by (intro parse_outcomes_ok) simp_all
  have pr: "dict_get study ''protocolSection'' (PDict []) = Inr ?protocol"
    using study by (simp add: dict_get_value_at sub_def)
  show ?thesis
    unfolding parse_study_def
    by (simp add: pr idn st sp ds co de iv el lo ou slice bnd_def)
qed

text \<open>
  Claim C9. For every well-formed registry payload, \<^verbatim>\<open>_parse_study\<close> with
  \<^verbatim>\<open>full_details=False\<close>, as \<^verbatim>\<open>search_trials\<close> calls it, returns a record with the
  compact keys only, whose criteria are the first 800 characters of the payload's and
  whose intervention descriptions are the first 200 characters of the payload's; with
  \<^verbatim>\<open>full_details=True\<close>, as \<^verbatim>\<open>show_trials\<close> calls it, it returns a record whose
  criteria and intervention descriptions are the payload's, whole, and which has in
  addition the official title, the organization, the investigator and affiliation, the
  two summaries, the design and the outcome measures of the payload.
\<close>

theorem compact_and_full_variants:
  assumes "well_formed_study study"
  shows "\<exists>compact full.
       parse_study study False = Inr (PDict compact)
     \<and> parse_study study True = Inr (PDict full)
     \<and> map fst compact = map PStr compact_keys
     \<and> map fst full = map PStr (compact_keys @ full_detail_keys)
     \<and> raw_criteria study = PStr (text_of (raw_criteria study))
     \<and> value_at (sub (PDict compact) ''eligibility'') ''criteria'' PNone
       = PStr (take 800 (text_of (raw_criteria study)))
     \<and> length (text_of (value_at (sub (PDict compact) ''eligibility'') ''criteria'' PNone)) \<le> 800
     \<and> value_at (sub (PDict full) ''eligibility'') ''criteria'' PNone = raw_criteria study
     \<and> descriptions_of (value_at (PDict compact) ''interventions'' PNone)
       = map (\<lambda>interv. PStr (take 200 (text_of (value_at interv ''description'' (PStr [])))))
           (raw_interventions study)
     \<and> list_all (\<lambda>d. is_str d \<and> length (text_of d) \<le> 200)
         (descriptions_of (value_at (PDict compact) ''interventions'' PNone))
     \<and> descriptions_of (value_at (PDict full) ''interventions'' PNone)
       = map (\<lambda>interv. value_at interv ''description'' (PStr [])) (raw_interventions study)
     \<and> value_at (PDict full) ''officialTitle'' PNone
       = value_at (sub (sub study ''protocolSection'') ''identificationModule'')
           ''officialTitle'' (PStr [])
     \<and> value_at (PDict full) ''organization'' PNone
       = value_at (sub (sub (sub study ''protocolSection'') ''identificationModule'')
                  ''organization'') ''fullName'' (PStr [])
     \<and> value_at (PDict full) ''investigator'' PNone
       = value_at (sub (sub (sub study ''protocolSection'') ''sponsorCollaboratorsModule'')
                  ''responsibleParty'') ''investigatorFullName'' (PStr [])
     \<and> value_at (PDict full) ''investigatorAffiliation'' PNone
       = value_at (sub (sub (sub study ''protocolSection'') ''sponsorCollaboratorsModule'')
                  ''responsibleParty'') ''investigatorAffiliation'' (PStr [])
     \<and> value_at (PDict full) ''briefSummary'' PNone
       = value_at (sub (sub study ''protocolSection'') ''descriptionModule'')
           ''briefSummary'' (PStr [])
     \<and> value_at (PDict full) ''detailedDescription'' PNone
       = value_at (sub (sub study ''protocolSection'') ''descriptionModule'')
           ''detailedDescription'' (PStr [])
     \<and> value_at (PDict full) ''design'' PNone
       = PDict [(PStr ''allocation'',
                 value_at (sub (sub (sub study ''protocolSection'') ''designModule'')
                          ''designInfo'') ''allocation'' (PStr [])),
                (PStr ''interventionModel'',
                 value_at (sub (sub (sub study ''protocolSection'') ''designModule'')
                          ''designInfo'') ''interventionModel'' (PStr [])),
                (PStr ''primaryPurpose'',
                 value_at (sub (sub (sub study ''protocolSection'') ''designModule'')
                          ''designInfo'') ''primaryPurpose'' (PStr []))]
     \<and> value_at (PDict full) ''primaryOutcomes'' PNone
       = PList (map primary_outcome_record
           (items_of (value_at (sub (sub study ''protocolSection'') ''outcomesModule'')
                        ''primaryOutcomes'' (PList []))))
     \<and> value_at (PDict full) ''secondaryOutcomes'' PNone
       = PList (map secondary_outcome_record
           (items_of (value_at (sub (sub study ''protocolSection'') ''outcomesModule'')
                        ''secondaryOutcomes'' (PList []))))"
proof -
  from assms have "is_str (raw_criteria study)"
    by (simp add: well_formed_study_def Let_def raw_criteria_def)
  then have crit: "raw_criteria study = PStr (text_of (raw_criteria study))"
    by (cases "raw_criteria study") (simp_all add: is_str_def text_of_def)
  have d: "value_at (intervention_record fd interv) ''description'' (PStr [])
           = (if fd then value_at interv ''description'' (PStr [])
              else PStr (take 200 (text_of (value_at interv ''description'' (PStr [])))))"
    for fd interv
    by (simp add: intervention_record_def value_at_PDict key_eq_def)
  from parse_study_ok [OF assms, of False] obtain compact where c:
    "parse_study study False = Inr (PDict compact)"
    "map fst compact = map PStr compact_keys"
    "value_at (sub (PDict compact) ''eligibility'') ''criteria'' PNone
       = PStr (take 800 (text_of (raw_criteria study)))"
    "value_at (PDict compact) ''interventions'' PNone
       = PList (map (intervention_record False) (raw_interventions study))"
    by (elim exE) (simp add: compact_keys_def sub_def value_at_PDict key_eq_def)
  from parse_study_ok [OF assms, of True] obtain full where f:
    "parse_study study True = Inr (PDict full)"
    "map fst full = map PStr (compact_keys @ full_detail_keys)"
    "value_at (sub (PDict full) ''eligibility'') ''criteria'' PNone = raw_criteria study"
    "value_at (PDict full) ''interventions'' PNone
       = PList (map (intervention_record True) (raw_interventions study))"
    "value_at (PDict full) ''officialTitle'' PNone
       = value_at (sub (sub study ''protocolSection'') ''identificationModule'')
           ''officialTitle'' (PStr [])"
    "value_at (PDict full) ''organization'' PNone
       = value_at (sub (sub (sub study ''protocolSection'') ''identificationModule'')
                  ''organization'') ''fullName'' (PStr [])"
    "value_at (PDict full) ''investigator'' PNone
       = value_at (sub (sub (sub study ''protocolSection'') ''sponsorCollaboratorsModule'')
                  ''responsibleParty'') ''investigatorFullName'' (PStr [])"
    "value_at (PDict full) ''investigatorAffiliation'' PNone
       = value_at (sub (sub (sub study ''protocolSection'') ''sponsorCollaboratorsModule'')
                  ''responsibleParty'') ''investigatorAffiliation'' (PStr [])"
    "value_at (PDict full) ''briefSummary'' PNone
       = value_at (sub (sub study ''protocolSection'') ''descriptionModule'')
           ''briefSummary'' (PStr [])"
    "value_at (PDict full) ''detailedDescription'' PNone
       = value_at (sub (sub study ''protocolSection'') ''descriptionModule'')
           ''detailedDescription'' (PStr [])"
    "value_at (PDict full) ''design'' PNone
       = PDict [(PStr ''allocation'',
                 value_at (sub (sub (sub study ''protocolSection'') ''designModule'')
                          ''designInfo'') ''allocation'' (PStr [])),
                (PStr ''interventionModel'',
                 value_at (sub (sub (sub study ''protocolSection'') ''designModule'')
                          ''designInfo'') ''interventionModel'' (PStr [])),
                (PStr ''primaryPurpose'',
                 value_at (sub (sub (sub study ''protocolSection'') ''designModule'')
                          ''designInfo'') ''primaryPurpose'' (PStr []))]"
    "value_at (PDict full) ''primaryOutcomes'' PNone
       = PList (map primary_outcome_record
           (items_of (value_at (sub (sub study ''protocolSection'') ''outcomesModule'')
                        ''primaryOutcomes'' (PList []))))"
    "value_at (PDict full) ''secondaryOutcomes'' PNone
       = PList (map secondary_outcome_record
           (items_of (value_at (sub (sub study ''protocolSection'') ''outcomesModule'')
                        ''secondaryOutcomes'' (PList []))))"
    by (elim exE)
       (simp add: compact_keys_def full_detail_keys_def sub_def value_at_PDict key_eq_def)
  have dc: "descriptions_of (value_at (PDict compact) ''interventions'' PNone)
       = map (\<lambda>interv. PStr (take 200 (text_of (value_at interv ''description'' (PStr [])))))
           (raw_interventions study)"
    by (simp add: c(4) descriptions_of_def items_of_def d comp_def)
  have df: "descriptions_of (value_at (PDict full) ''interventions'' PNone)
       = map (\<lambda>interv. value_at interv ''description'' (PStr [])) (raw_interventions study)"
    by (simp add: f(4) descriptions_of_def items_of_def d comp_def)
  have short: "list_all (\<lambda>d. is_str d \<and> length (text_of d) \<le> 200)
         (descriptions_of (value_at (PDict compact) ''interventions'' PNone))"
    by (simp add: dc list_all_iff is_str_def text_of_def)
  have len: "length (text_of (value_at (sub (PDict compact) ''eligibility'') ''criteria'' PNone))
             \<le> 800"
    by (simp add: c(3) text_of_def)
  from c(1,2,3) f(1,2,3) f(5-13) crit dc df short len show ?thesis
    by blast
qed

lemma sample_protocol:
  "sub sample_study ''protocolSection''
   = PDict [(PStr ''identificationModule'',
                 PDict [(PStr ''nctId'', PStr ''NCT01''),
                        (PStr ''officialTitle'', PStr ''Official'')]),
              (PStr ''armsInterventionsModule'',
                 PDict [(PStr ''interventions'',
                           PList [PDict [(PStr ''name'', PStr ''insulin''),
                                         (PStr ''description'',
                                          PStr (replicate 300 (CHR ''y'')))]])]),
              (PStr ''eligibilityModule'',
                 PDict [(PStr ''eligibilityCriteria'', PStr (replicate 1000 (CHR ''x'')))])]"
  by (simp add: sample_study_def sub_def value_at_def key_eq_def)

lemma sample_well_formed: "well_formed_study sample_study"
  unfolding well_formed_study_def Let_def sample_protocol
  by (simp add: sub_def value_at_def key_eq_def is_dict_def is_str_def is_list_of_def
        sample_study_def)

lemma sample_raw_criteria: "raw_criteria sample_study = PStr (replicate 1000 (CHR ''x''))"
  unfolding raw_criteria_def sample_protocol
  by (simp add: sub_def value_at_def key_eq_def)

lemma sample_raw_interventions:
  "raw_interventions sample_study
   = [PDict [(PStr ''name'', PStr ''insulin''),
             (PStr ''description'', PStr (replicate 300 (CHR ''y'')))]]"
  unfolding raw_interventions_def sample_protocol
  by (simp add: sub_def value_at_def key_eq_def items_of_def)

theorem compact_and_full_variants_witness:
  "well_formed_study sample_study
   \<and> (\<exists>compact full.
         parse_study sample_study False = Inr (PDict compact)
       \<and> parse_study sample_study True = Inr (PDict full)
       \<and> value_at (sub (PDict compact) ''eligibility'') ''criteria'' PNone
         = PStr (replicate 800 (CHR ''x''))
       \<and> value_at (sub (PDict full) ''eligibility'') ''criteria'' PNone
         = PStr (replicate 1000 (CHR ''x''))
       \<and> descriptions_of (value_at (PDict compact) ''interventions'' PNone)
         = [PStr (replicate 200 (CHR ''y''))]
       \<and> descriptions_of (value_at (PDict full) ''interventions'' PNone)
         = [PStr (replicate 300 (CHR ''y''))]
       \<and> value_at (PDict compact) ''officialTitle'' PNone = PNone
       \<and> value_at (PDict full) ''officialTitle'' PNone = PStr ''Official'')"
proof -
  from compact_and_full_variants [OF sample_well_formed] obtain compact full where
    c: "parse_study sample_study False = Inr (PDict compact)"
    and f: "parse_study sample_study True = Inr (PDict full)"
    and k: "map fst compact = map PStr compact_keys"
    and cc: "value_at (sub (PDict compact) ''eligibility'') ''criteria'' PNone
       = PStr (take 800 (text_of (raw_criteria sample_study)))"
    and fc: "value_at (sub (PDict full) ''eligibility'') ''criteria'' PNone = raw_criteria sample_study"
    and cd: "descriptions_of (value_at (PDict compact) ''interventions'' PNone)
       = map (\<lambda>interv. PStr (take 200 (text_of (value_at interv ''description'' (PStr [])))))
           (raw_interventions sample_study)"
    and fd: "descriptions_of (value_at (PDict full) ''interventions'' PNone)
       = map (\<lambda>interv. value_at interv ''description'' (PStr [])) (raw_interventions sample_study)"
    and ot: "value_at (PDict full) ''officialTitle'' PNone
       = value_at (sub (sub sample_study ''protocolSection'') ''identificationModule'')
           ''officialTitle'' (PStr [])"
    by blast
  have "lookup compact (PStr ''officialTitle'') = None"
  proof (cases "lookup compact (PStr ''officialTitle'')")
    case None
    then show ?thesis .
  next
    case (Some v)
    have "lookup kvs k = Some v \<Longrightarrow> \<exists>k' \<in> set (map fst kvs). key_eq k' k" for kvs k
      by (induction kvs) (auto split: if_splits)
    from this [OF Some] k show ?thesis
      by (simp add: compact_keys_def key_eq_def)
  qed
  then have no: "value_at (PDict compact) ''officialTitle'' PNone = PNone"
    by (simp add: value_at_def)
  from cc have cc': "value_at (sub (PDict compact) ''eligibility'') ''criteria'' PNone
         = PStr (replicate 800 (CHR ''x''))"
    by (simp add: sample_raw_criteria text_of_def)
  from fc have fc': "value_at (sub (PDict full) ''eligibility'') ''criteria'' PNone
         = PStr (replicate 1000 (CHR ''x''))"
    by (simp add: sample_raw_criteria)
  from cd have cd': "descriptions_of (value_at (PDict compact) ''interventions'' PNone)
         = [PStr (replicate 200 (CHR ''y''))]"
    by (simp add: sample_raw_interventions value_at_def key_eq_def text_of_def)
  from fd have fd': "descriptions_of (value_at (PDict full) ''interventions'' PNone)
         = [PStr (replicate 300 (CHR ''y''))]"
    by (simp add: sample_raw_interventions value_at_def key_eq_def)
  from ot have ot': "value_at (PDict full) ''officialTitle'' PNone = PStr ''Official''"
    unfolding sample_protocol by (simp add: sub_def value_at_def key_eq_def)
  from sample_well_formed c f cc' fc' cd' fd' no ot' show ?thesis by blast
qed

end
